theory Spec2Isabelle
  imports Main
begin

section \<open>Fadroma client: shared data (packages/client/client.ts)\<close>

text \<open>
  Strings of the source are \<open>string\<close>; an optional field (\<open>codeId?: CodeId\<close>) is an
  \<open>option\<close>, with \<open>None\<close> for \<open>undefined\<close> (and for the \<open>null\<close> that
  \<open>Bundle.instantiate\<close> writes into \<open>address\<close>).  A JS condition \<open>if (s)\<close> on an optional
  string holds when the string is present and not empty.
\<close>

type_synonym Address = string
type_synonym ChainId = string
type_synonym CodeHash = string
type_synonym CodeId = string
type_synonym Label = string
type_synonym TxHash = string
type_synonym Uint128 = string

definition truthy :: "string option \<Rightarrow> bool" where
  "truthy v = (case v of None \<Rightarrow> False | Some s \<Rightarrow> s \<noteq> [])"

text \<open>\<open>String(x)\<close> of an optional string: \<open>String(undefined)\<close> is the text "undefined".\<close>

definition String_of :: "string option \<Rightarrow> string" where
  "String_of v = (case v of None \<Rightarrow> ''undefined'' | Some s \<Rightarrow> s)"

datatype Json =
    JNull
  | JBool bool
  | JNum int
  | JStr string
  | JArr "Json list"
  | JObj "(string \<times> Json) list"

text \<open>\<open>type Message = string|Record<string, unknown>\<close>; the record is kept as its list of
  root keys with their values, in the order \<open>Object.keys\<close> gives them.\<close>

datatype Message = MsgString string | MsgObject "(string \<times> Json) list"

record ICoin =
  amount :: Uint128
  denom :: string

record IFee =
  fee_amount :: "ICoin list"
  gas :: Uint128

record AgentFees =
  send_fee :: "IFee option"
  upload_fee :: "IFee option"
  init_fee :: "IFee option"
  exec_fee :: "IFee option"

record Template =
  uploadTx :: "TxHash option"
  chainId :: "ChainId option"
  codeId :: "CodeId option"
  codeHash :: "CodeHash option"

record Instance = Template +
  address :: "Address option"
  label :: "Label option"

datatype error =
    Error string
  | NoChainId
  | NotInBundle string
  | NoCrate
  | NoAgent
  | NoName
  | NoInitLabel
  | NoInitMessage
  | NoInitCodeId
  | LinkNoAddress
  | Failure string

section \<open>Bundle\<close>

text \<open>
  The wrapped \<open>Agent\<close>: the fields a bundle reads from it, and the answers of its
  (asynchronous) lookups, which come from the chain behind it.
\<close>

record Agent =
  agent_chain_id :: ChainId
  agent_address :: "Address option"
  agent_name :: "string option"
  agent_fees :: "AgentFees option"
  agent_getCodeId :: "Address \<Rightarrow> error + CodeId"
  agent_getLabel :: "Address \<Rightarrow> error + Label"
  agent_getHash :: "Address \<Rightarrow> error + CodeHash"
  agent_checkHash :: "Address \<Rightarrow> CodeHash option \<Rightarrow> error + CodeHash"

text \<open>The records \<open>add\<close> receives: \<open>{ init: {...} }\<close> and \<open>{ exec: {...} }\<close>.\<close>

datatype BundleMsg =
    Init (init_sender: "Address option") (init_codeId: string) (init_codeHash: "CodeHash option")
         (init_label: Label) (init_msg: Message) (init_funds: "ICoin list")
  | Exec (exec_sender: "Address option") (exec_contract: "Address option")
         (exec_codeHash: "CodeHash option") (exec_msg: Message) (exec_funds: "ICoin list option")

text \<open>
  \<open>depth = 0\<close>, \<open>id = 0\<close>, \<open>msgs = []\<close>.  \<open>msgs\<close> is a JS array: a slot is either a
  record or a hole.
\<close>

record Bundle =
  agent :: Agent
  depth :: int
  next_id :: nat
  msgs :: "BundleMsg option list"

definition new_Bundle :: "Agent \<Rightarrow> Bundle" where
  "new_Bundle a = \<lparr> agent = a, depth = 0, next_id = 0, msgs = [] \<rparr>"

text \<open>\<open>arr[i] = v\<close> on a JS array: in range it replaces, past the end it extends with holes.\<close>

definition array_set :: "'a option list \<Rightarrow> nat \<Rightarrow> 'a \<Rightarrow> 'a option list" where
  "array_set xs i v =
     (if i < length xs then xs[i := Some v]
      else xs @ replicate (i - length xs) None @ [Some v])"

text \<open>\<open>add (msg) { const id = this.id++; this.msgs[id] = msg; return id }\<close>\<close>

definition add :: "Bundle \<Rightarrow> BundleMsg \<Rightarrow> nat \<times> Bundle" where
  "add b m =
     (let i = next_id b;
          b1 = b\<lparr> next_id := i + 1 \<rparr>;
          b2 = b1\<lparr> msgs := array_set (msgs b1) i m \<rparr>
      in (i, b2))"

text \<open>\<open>bundle (): this { console.warn(..., ++this.depth); return this }\<close>: the result is
  the bundle itself, so the model returns the one updated state.\<close>

definition bundle' :: "Bundle \<Rightarrow> Bundle" where
  "bundle' b = b\<lparr> depth := depth b + 1 \<rparr>"

text \<open>What \<open>run\<close> hands back: \<open>null\<close>, or the promise of \<open>this.submit(memo)\<close>.\<close>

datatype RunResult = ReturnsNull | Submit string

text \<open>
  \<^verbatim>\<open>
  run (memo = ""): Promise<any> {
    if (this.depth > 0) {
      console.warn('Unnesting bundle. Depth:', --this.depth)
      this.depth--
      return null
    } else {
      return this.submit(memo)
    }
  }
  \<close>
  The argument of \<open>console.warn\<close> is \<open>--this.depth\<close>, which decrements; the next
  statement decrements again.
\<close>

definition run :: "Bundle \<Rightarrow> string \<Rightarrow> RunResult \<times> Bundle" where
  "run b memo =
     (if depth b > 0 then
        (let b1 = b\<lparr> depth := depth b - 1 \<rparr>;
             b2 = b1\<lparr> depth := depth b1 - 1 \<rparr>
         in (ReturnsNull, b2))
      else (Submit memo, b))"

text \<open>\<open>n\<close> calls of \<open>bundle()\<close> in a row.\<close>

fun bundle_times :: "nat \<Rightarrow> Bundle \<Rightarrow> Bundle" where
  "bundle_times 0 b = b"
| "bundle_times (Suc n) b = bundle_times n (bundle' b)"

text \<open>\<open>n\<close> calls of \<open>run(memo)\<close> in a row, with what each returned, first call first.\<close>

fun run_times :: "nat \<Rightarrow> string \<Rightarrow> Bundle \<Rightarrow> RunResult list \<times> Bundle" where
  "run_times 0 memo b = ([], b)"
| "run_times (Suc n) memo b =
     (let (r, b1) = run b memo; (rs, b2) = run_times n memo b1 in (r # rs, b2))"

text \<open>
  \<open>init\<close> and \<open>instantiate\<close> of client.ts.  \<open>init\<close> adds the record and returns the bundle;
  \<open>instantiate\<close> then builds
  \<open>{ chainId: this.agent.chain.id, codeId, codeHash, address: null }\<close>.
\<close>

definition init :: "Bundle \<Rightarrow> Template \<Rightarrow> Label \<Rightarrow> Message \<Rightarrow> ICoin list \<Rightarrow> Bundle" where
  "init b template lbl msg funds =
     snd (add b (Init (agent_address (agent b)) (String_of (codeId template))
                      (codeHash template) lbl msg funds))"

definition instantiate :: "Bundle \<Rightarrow> Template \<Rightarrow> Label \<Rightarrow> Message \<Rightarrow> Instance \<times> Bundle" where
  "instantiate b template lbl msg =
     (let b1 = init b template lbl msg []
      in (\<lparr> uploadTx = None, chainId = Some (agent_chain_id (agent b1)),
            codeId = codeId template, codeHash = codeHash template,
            address = None, label = None \<rparr>, b1))"

text \<open>\<open>execute (instance, msg, { send } = {})\<close>: adds the record and returns the bundle.\<close>

definition execute :: "Bundle \<Rightarrow> Instance \<Rightarrow> Message \<Rightarrow> ICoin list option \<Rightarrow> Bundle" where
  "execute b instance msg send =
     snd (add b (Exec (agent_address (agent b)) (address instance) (codeHash instance) msg send))"

text \<open>A call of \<open>instantiate\<close> or \<open>execute\<close>, and the record each one logs.\<close>

datatype BundleCall =
    CallInstantiate Template Label Message
  | CallExecute Instance Message "ICoin list option"

fun record_of :: "Agent \<Rightarrow> BundleCall \<Rightarrow> BundleMsg" where
  "record_of a (CallInstantiate t l m) =
     Init (agent_address a) (String_of (codeId t)) (codeHash t) l m []"
| "record_of a (CallExecute i m s) =
     Exec (agent_address a) (address i) (codeHash i) m s"

fun call :: "Bundle \<Rightarrow> BundleCall \<Rightarrow> Bundle" where
  "call b (CallInstantiate t l m) = snd (instantiate b t l m)"
| "call b (CallExecute i m s) = execute b i m s"

subsection \<open>Bundle, later revision (the Bundle class in client-fields.spec.ts.md)\<close>

text \<open>
  There \<open>Bundle extends Agent\<close>.  The operations that read chain state or move funds
  throw \<open>ClientError.NotInBundle\<close>; the four lookups that do not change over time return
  what the wrapped agent returns.  Each operation is given with the bundle it leaves
  behind.  \<open>height\<close> and \<open>nextBlock\<close> are getters.
\<close>

definition query :: "Bundle \<Rightarrow> Instance \<Rightarrow> Message \<Rightarrow> (error + Json) \<times> Bundle" where
  "query b contract msg = (Inl (NotInBundle ''query''), b)"

definition upload :: "Bundle \<Rightarrow> nat list \<Rightarrow> (error + Template) \<times> Bundle" where
  "upload b code = (Inl (NotInBundle ''upload''), b)"

definition uploadMany :: "Bundle \<Rightarrow> nat list list \<Rightarrow> (error + Template list) \<times> Bundle" where
  "uploadMany b code = (Inl (NotInBundle ''upload''), b)"

definition getBalance :: "Bundle \<Rightarrow> string \<Rightarrow> (error + string) \<times> Bundle" where
  "getBalance b dnm = (Inl (NotInBundle ''query balance''), b)"

definition height :: "Bundle \<Rightarrow> (error + nat) \<times> Bundle" where
  "height b = (Inl (NotInBundle ''query block height inside bundle''), b)"

definition nextBlock :: "Bundle \<Rightarrow> (error + nat) \<times> Bundle" where
  "nextBlock b = (Inl (NotInBundle ''wait for next block''), b)"

definition send :: "Bundle \<Rightarrow> Address \<Rightarrow> ICoin list \<Rightarrow> (error + unit) \<times> Bundle" where
  "send b to amounts = (Inl (NotInBundle ''send''), b)"

definition sendMany :: "Bundle \<Rightarrow> (Address \<times> ICoin list) list \<Rightarrow> (error + unit) \<times> Bundle" where
  "sendMany b outputs = (Inl (NotInBundle ''send''), b)"

definition getCodeId :: "Bundle \<Rightarrow> Address \<Rightarrow> (error + CodeId) \<times> Bundle" where
  "getCodeId b addr = (agent_getCodeId (agent b) addr, b)"

definition getLabel :: "Bundle \<Rightarrow> Address \<Rightarrow> (error + Label) \<times> Bundle" where
  "getLabel b addr = (agent_getLabel (agent b) addr, b)"

definition getHash :: "Bundle \<Rightarrow> Address \<Rightarrow> (error + CodeHash) \<times> Bundle" where
  "getHash b addr = (agent_getHash (agent b) addr, b)"

definition checkHash :: "Bundle \<Rightarrow> Address \<Rightarrow> CodeHash option \<Rightarrow> (error + CodeHash) \<times> Bundle" where
  "checkHash b addr h = (agent_checkHash (agent b) addr h, b)"

text \<open>An error value is a \<open>NotInBundle\<close> error.\<close>

fun is_NotInBundle :: "error + 'a \<Rightarrow> bool" where
  "is_NotInBundle (Inl (NotInBundle what)) = True"
| "is_NotInBundle r = False"

section \<open>Chain (the Chain class in client-fields.spec.ts.md; client.ts has the same constructor)\<close>

datatype ChainMode = Mainnet | Testnet | Devnet | Mocknet

text \<open>Of a \<open>DevnetHandle\<close> the constructor reads \<open>chainId\<close> and \<open>String(url)\<close>.\<close>

record DevnetHandle =
  node_chainId :: string
  node_url :: string

record ChainOpts =
  opt_url :: "string option"
  opt_mode :: "ChainMode option"
  opt_node :: "DevnetHandle option"

record Chain =
  chain_id :: ChainId
  chain_url :: string
  chain_mode :: "ChainMode option"
  chain_node :: "DevnetHandle option"

text \<open>The warnings the constructor logs: \<open>warnUrlOverride(node.url, this.url)\<close>,
  \<open>warnIdOverride(node.chainId, this.id)\<close>, \<open>warnNodeNonDevnet()\<close>.\<close>

datatype ChainWarning =
    WarnUrlOverride string string
  | WarnIdOverride string string
  | WarnNodeNonDevnet

text \<open>
  \<^verbatim>\<open>
  if (!id) throw new ClientError.NoChainId()
  this.id   = id
  this.mode = options.mode!
  if (options.url) { this.url = options.url }
  if (options.node) {
    if (options.mode === Chain.Mode.Devnet) {
      this.node = options.node
      if (this.url !== String(this.node.url)) { warn; this.url = String(this.node.url) }
      if (this.id !== this.node.chainId) { warn; this.id = this.node.chainId }
    } else { this.log.warnNodeNonDevnet() }
  }
  \<close>
  The field \<open>url\<close> starts as the empty string.
\<close>

definition new_Chain :: "ChainId \<Rightarrow> ChainOpts \<Rightarrow> error + (Chain \<times> ChainWarning list)" where
  "new_Chain cid options =
     (if cid = [] then Inl NoChainId
      else
        let c0 = \<lparr> chain_id = cid, chain_url = [], chain_mode = opt_mode options,
                    chain_node = None \<rparr>;
            c1 = (case opt_url options of
                    None \<Rightarrow> c0
                  | Some u \<Rightarrow> if u \<noteq> [] then c0\<lparr> chain_url := u \<rparr> else c0)
        in case opt_node options of
             None \<Rightarrow> Inr (c1, [])
           | Some n \<Rightarrow>
               if opt_mode options = Some Devnet then
                 let c2 = c1\<lparr> chain_node := Some n \<rparr>;
                     w3 = (if chain_url c2 \<noteq> node_url n
                           then [WarnUrlOverride (node_url n) (chain_url c2)] else []);
                     c3 = (if chain_url c2 \<noteq> node_url n
                           then c2\<lparr> chain_url := node_url n \<rparr> else c2);
                     w4 = (if chain_id c3 \<noteq> node_chainId n
                           then [WarnIdOverride (node_chainId n) (chain_id c3)] else []);
                     c4 = (if chain_id c3 \<noteq> node_chainId n
                           then c3\<lparr> chain_id := node_chainId n \<rparr> else c3)
                 in Inr (c4, w3 @ w4)
               else Inr (c1, [WarnNodeNonDevnet]))"

definition isMainnet :: "Chain \<Rightarrow> bool" where
  "isMainnet c = (chain_mode c = Some Mainnet)"

definition isTestnet :: "Chain \<Rightarrow> bool" where
  "isTestnet c = (chain_mode c = Some Testnet)"

definition isDevnet :: "Chain \<Rightarrow> bool" where
  "isDevnet c = (chain_mode c = Some Devnet)"

definition isMocknet :: "Chain \<Rightarrow> bool" where
  "isMocknet c = (chain_mode c = Some Mocknet)"

definition devMode :: "Chain \<Rightarrow> bool" where
  "devMode c = (isDevnet c \<or> isMocknet c)"

text \<open>The url the caller provided, as the constructor has it before it looks at the node.\<close>

definition provided_url :: "ChainOpts \<Rightarrow> string" where
  "provided_url options = (case opt_url options of None \<Rightarrow> [] | Some u \<Rightarrow> u)"

section \<open>Client.getFee (packages/client/client.ts)\<close>

text \<open>
  \<open>fees: Record<string, IFee> = {}\<close> is a plain object.  Its own keys are the
  registered fees, kept as a map from the name of a transaction to its fee.
\<close>

record Client =
  client_agent :: Agent
  client_address :: Address
  client_fee :: "IFee option"
  client_fees :: "string \<rightharpoonup> IFee"

text \<open>\<open>a || b\<close> on optional objects.\<close>

definition or_else :: "'a option \<Rightarrow> 'a option \<Rightarrow> 'a option" where
  "or_else a b = (case a of Some x \<Rightarrow> Some x | None \<Rightarrow> b)"

text \<open>\<open>this.agent.fees?.exec\<close>\<close>

definition agent_exec_fee :: "Agent \<Rightarrow> IFee option" where
  "agent_exec_fee a = (case agent_fees a of None \<Rightarrow> None | Some fs \<Rightarrow> exec_fee fs)"

text \<open>
  What \<open>this.fees[key]\<close> can give: a registered fee, or, for a key the object does not
  have itself, the member of that name which every plain object inherits from
  \<open>Object.prototype\<close> (a function, or for \<open>__proto__\<close> the prototype object).
\<close>

datatype FeeValue = FeeOf IFee | Inherited string

text \<open>The names of the members of \<open>Object.prototype\<close>.\<close>

definition Object_prototype :: "string list" where
  "Object_prototype =
     [''constructor'', ''__defineGetter__'', ''__defineSetter__'', ''hasOwnProperty'',
      ''__lookupGetter__'', ''__lookupSetter__'', ''isPrototypeOf'', ''propertyIsEnumerable'',
      ''toString'', ''valueOf'', ''__proto__'', ''toLocaleString'']"

text \<open>\<open>this.fees[key]\<close>: the own key first, then the prototype.\<close>

definition fees_get :: "(string \<rightharpoonup> IFee) \<Rightarrow> string \<Rightarrow> FeeValue option" where
  "fees_get fees key =
     (case fees key of
        Some f \<Rightarrow> Some (FeeOf f)
      | None \<Rightarrow> if key \<in> set Object_prototype then Some (Inherited key) else None)"

text \<open>
  \<^verbatim>\<open>
  getFee (msg?: string|Record<string, unknown>): IFee|undefined {
    const defaultFee = this.fee || this.agent.fees?.exec
    if (typeof msg === 'string') {
      return this.fees[msg] || defaultFee
    } else if (typeof msg === 'object') {
      const keys = Object.keys(msg)
      if (keys.length !== 1) {
        throw new Error('Client#getFee: messages must have exactly 1 root key')
      }
      return this.fees[keys[0]] || defaultFee
    }
    return this.fee || defaultFee
  }
  \<close>
  A fee, a function and the prototype object are all objects, so \<open>||\<close> takes its left
  side whenever that is there.
\<close>

definition getFee :: "Client \<Rightarrow> Message option \<Rightarrow> error + FeeValue option" where
  "getFee c msg =
     (let defaultFee = map_option FeeOf (or_else (client_fee c) (agent_exec_fee (client_agent c)))
      in case msg of
           Some (MsgString s) \<Rightarrow> Inr (or_else (fees_get (client_fees c) s) defaultFee)
         | Some (MsgObject kvs) \<Rightarrow>
             (let keys = map fst kvs
              in if length keys \<noteq> 1
                 then Inl (Error ''Client#getFee: messages must have exactly 1 root key'')
                 else Inr (or_else (fees_get (client_fees c) (keys ! 0)) defaultFee))
         | None \<Rightarrow> Inr (or_else (map_option FeeOf (client_fee c)) defaultFee))"

section \<open>Contract lifecycle (part_006: the ContractTemplate and Contract classes of core-contract)\<close>

text \<open>
  A builder, an uploader, an agent, a deployment, a client class, an array and a URL are
  objects, known by their identity.  A task made by \<open>defineTask\<close> is an object too, known
  by its position among the tasks defined so far.
\<close>

type_synonym ObjRef = nat
type_synonym TaskId = nat

text \<open>\<open>repository?: string|URL\<close> and \<open>artifact?: string|URL\<close>: a string, or a URL
  object.\<close>

datatype StringOrURL = Str string | Url ObjRef

text \<open>\<open>if (this.artifact)\<close>: an object is true, a string is true unless empty.\<close>

definition truthy_su :: "StringOrURL option \<Rightarrow> bool" where
  "truthy_su v = (case v of None \<Rightarrow> False | Some (Str s) \<Rightarrow> s \<noteq> [] | Some (Url u) \<Rightarrow> True)"

text \<open>\<open>initMsg?: Into<Message>\<close>: a string, or an object (a record, a function or a
  promise of a message).\<close>

datatype IntoMessage = IntoString string | IntoObject ObjRef


text \<open>Of the \<open>Deployment\<close> in \<open>context\<close> the constructors read the name and the six
  defaults; the deployment is taken as it is when the contract is constructed.\<close>

record Deployment =
  dep_ref :: ObjRef
  dep_name :: string
  dep_agent :: "ObjRef option"
  dep_builder :: "ObjRef option"
  dep_uploader :: "ObjRef option"
  dep_repository :: "StringOrURL option"
  dep_revision :: "string option"
  dep_workspace :: "string option"

text \<open>
  The fields of \<open>ContractTemplate\<close>, each \<open>undefined\<close> until set, but for \<open>client\<close>.
  \<open>own_uploaded\<close> holds what \<open>Object.defineProperty(this, 'uploaded', { get () { return
  uploading } })\<close> installs on the object: an own property that shadows the getter of the
  class.
\<close>

record ContractTemplate =
  c_context :: "Deployment option"
  c_repository :: "StringOrURL option"
  c_revision :: "string option"
  c_dirty :: "bool option"
  c_workspace :: "string option"
  c_crate :: "string option"
  c_features :: "(ObjRef \<times> string list) option"
  c_builder :: "ObjRef option"
  c_builderId :: "string option"
  c_artifact :: "StringOrURL option"
  c_codeHash :: "CodeHash option"
  c_chainId :: "ChainId option"
  c_uploaderId :: "string option"
  c_uploader :: "ObjRef option"
  c_uploadBy :: "Address option"
  c_uploadTx :: "TxHash option"
  c_codeId :: "CodeId option"
  c_agent :: "ObjRef option"
  c_client :: "ObjRef option"
  own_uploaded :: "TaskId option"

text \<open>
  \<open>Contract\<close> declares the same fields again and adds those of the instance; it is kept
  as the record of the template with more fields, so that what is written once for the
  common fields reads both.  \<open>own_deployed\<close> is the own property \<open>deployed\<close>.
\<close>

record Contract = ContractTemplate +
  c_initBy :: "Address option"
  c_initMsg :: "IntoMessage option"
  c_initTx :: "TxHash option"
  c_address :: "Address option"
  c_label :: "Label option"
  c_prefix :: "string option"
  c_id :: "string option"
  c_suffix :: "string option"
  own_deployed :: "TaskId option"

subsection \<open>The constructors\<close>

text \<open>The base \<open>Client\<close> class, the initial value of the field \<open>client\<close>.\<close>

definition Client_class :: ObjRef where
  "Client_class = 0"

text \<open>The objects as the field initialisers leave them.\<close>

definition blank_ContractTemplate :: ContractTemplate where
  "blank_ContractTemplate =
     \<lparr> c_context = None, c_repository = None, c_revision = None, c_dirty = None,
       c_workspace = None, c_crate = None, c_features = None, c_builder = None,
       c_builderId = None, c_artifact = None, c_codeHash = None, c_chainId = None,
       c_uploaderId = None, c_uploader = None, c_uploadBy = None, c_uploadTx = None,
       c_codeId = None, c_agent = None, c_client = Some Client_class, own_uploaded = None \<rparr>"

definition blank_Contract :: Contract where
  "blank_Contract =
     \<lparr> c_context = None, c_repository = None, c_revision = None, c_dirty = None,
       c_workspace = None, c_crate = None, c_features = None, c_builder = None,
       c_builderId = None, c_artifact = None, c_codeHash = None, c_chainId = None,
       c_uploaderId = None, c_uploader = None, c_uploadBy = None, c_uploadTx = None,
       c_codeId = None, c_agent = None, c_client = Some Client_class, own_uploaded = None,
       c_initBy = None, c_initMsg = None, c_initTx = None, c_address = None, c_label = None,
       c_prefix = None, c_id = None, c_suffix = None, own_deployed = None \<rparr>"

text \<open>Modelled from the spec: \<open>override(self, options)\<close> of core-fields, which is
  missing; its test says "only work on existing properties":
  \<open>override({ a: 1, b: 2 }, { b: 3, c: 4 })\<close> is \<open>{ a: 1, b: 3 }\<close>.  Options are a
  \<open>Partial\<close> of the class: a field that is \<open>None\<close> in them is a key they do not give.
  This is the part for the fields of the template.\<close>

definition override_template ::
    "'a ContractTemplate_scheme \<Rightarrow> 'b ContractTemplate_scheme \<Rightarrow> 'a ContractTemplate_scheme" where
  "override_template self options =
     self\<lparr> c_context := or_else (c_context options) (c_context self),
           c_repository := or_else (c_repository options) (c_repository self),
           c_revision := or_else (c_revision options) (c_revision self),
           c_dirty := or_else (c_dirty options) (c_dirty self),
           c_workspace := or_else (c_workspace options) (c_workspace self),
           c_crate := or_else (c_crate options) (c_crate self),
           c_features := or_else (c_features options) (c_features self),
           c_builder := or_else (c_builder options) (c_builder self),
           c_builderId := or_else (c_builderId options) (c_builderId self),
           c_artifact := or_else (c_artifact options) (c_artifact self),
           c_codeHash := or_else (c_codeHash options) (c_codeHash self),
           c_chainId := or_else (c_chainId options) (c_chainId self),
           c_uploaderId := or_else (c_uploaderId options) (c_uploaderId self),
           c_uploader := or_else (c_uploader options) (c_uploader self),
           c_uploadBy := or_else (c_uploadBy options) (c_uploadBy self),
           c_uploadTx := or_else (c_uploadTx options) (c_uploadTx self),
           c_codeId := or_else (c_codeId options) (c_codeId self),
           c_agent := or_else (c_agent options) (c_agent self),
           c_client := or_else (c_client options) (c_client self) \<rparr>"

text \<open>Modelled from the spec: \<open>override(self, options)\<close> of core-fields (missing), for
  all the fields of a contract.\<close>

definition override_contract :: "Contract \<Rightarrow> Contract \<Rightarrow> Contract" where
  "override_contract self options =
     (override_template self options)
       \<lparr> c_initBy := or_else (c_initBy options) (c_initBy self),
         c_initMsg := or_else (c_initMsg options) (c_initMsg self),
         c_initTx := or_else (c_initTx options) (c_initTx self),
         c_address := or_else (c_address options) (c_address self),
         c_label := or_else (c_label options) (c_label self),
         c_prefix := or_else (c_prefix options) (c_prefix self),
         c_id := or_else (c_id options) (c_id self),
         c_suffix := or_else (c_suffix options) (c_suffix self) \<rparr>"

text \<open>Modelled from the spec: the six calls of \<open>defineDefault(this, this.context, ...)\<close>
  of core-fields, which is missing; the spec has a contract of a deployment "inheriting
  the deployment's defaults (agent, builder, uploader, workspace, revision)": a field
  the contract has no value for reads the deployment's.\<close>

definition defineDefaults ::
    "'a ContractTemplate_scheme \<Rightarrow> Deployment \<Rightarrow> 'a ContractTemplate_scheme" where
  "defineDefaults self ctx =
     self\<lparr> c_agent := or_else (c_agent self) (dep_agent ctx),
           c_builder := or_else (c_builder self) (dep_builder ctx),
           c_uploader := or_else (c_uploader self) (dep_uploader ctx),
           c_repository := or_else (c_repository self) (dep_repository ctx),
           c_revision := or_else (c_revision self) (dep_revision ctx),
           c_workspace := or_else (c_workspace self) (dep_workspace ctx) \<rparr>"

text \<open>
  \<^verbatim>\<open>
  constructor (options: Partial<ContractTemplate<C>> = {}) {
    super({})
    override(this, options)
    if (this.context) {
      defineDefault(this, this.context, 'agent')
      ... 'builder', 'uploader', 'repository', 'revision', 'workspace'
    }
  }
  \<close>
\<close>

definition new_ContractTemplate :: "ContractTemplate \<Rightarrow> ContractTemplate" where
  "new_ContractTemplate options =
     (let t1 = override_template blank_ContractTemplate options
      in case c_context t1 of
           None \<Rightarrow> t1
         | Some ctx \<Rightarrow> defineDefaults t1 ctx)"

text \<open>The warning of the setter of \<open>prefix\<close>:
  \<open>BUG: Overriding prefix from "${self.context?.name}" to "${v}"\<close>.\<close>

datatype ContractWarning = OverridingPrefix string string

text \<open>
  \<^verbatim>\<open>
  constructor (options: Partial<Contract<C>> = {}) {
    super({})
    override(this, options)
    if (this.context) {
      defineDefault(this, this.context, 'agent')
      ... 'builder', 'uploader', 'repository', 'revision', 'workspace'
      const self = this
      setPrefix(this.context.name)
      function setPrefix (value: string) {
        Object.defineProperty(self, 'prefix', {
          enumerable: true,
          get () { return self.context?.name },
          set (v: string) {
            if (v !== self.context?.name) { self.log!.warn(`BUG: Overriding prefix ...`) }
            setPrefix(v)
          }
        })
      }
    }
    override(this, options)
  }
  \<close>
  With a deployment, \<open>prefix\<close> reads the deployment's name whatever is assigned to it,
  and the second \<open>override\<close> warns when the options give another prefix.  The result is
  the contract with the warnings logged.
\<close>

definition new_Contract :: "Contract \<Rightarrow> Contract \<times> ContractWarning list" where
  "new_Contract options =
     (let c1 = override_contract blank_Contract options
      in case c_context c1 of
           None \<Rightarrow> (override_contract c1 options, [])
         | Some ctx \<Rightarrow>
             (let c2 = (defineDefaults c1 ctx)\<lparr> c_prefix := Some (dep_name ctx) \<rparr>;
                  c3 = (override_contract c2 options)\<lparr> c_prefix := Some (dep_name ctx) \<rparr>
              in (c3, case c_prefix options of
                        None \<Rightarrow> []
                      | Some v \<Rightarrow>
                          if v \<noteq> dep_name ctx then [OverridingPrefix (dep_name ctx) v]
                          else [])))"

text \<open>
  The constructor of the older \<open>Contract\<close> (lines 665-667), whose field \<open>client\<close> starts
  as \<open>Client\<close> too (line 637):
  \<^verbatim>\<open>
  constructor (options: Partial<Contract<C>> = {}) {
    override(this, options)
  }
  \<close>
\<close>

definition new_Contract_older :: "Contract \<Rightarrow> Contract" where
  "new_Contract_older options = override_contract blank_Contract options"

subsection \<open>The one-shot getters\<close>

datatype Work = Compile | Upload | Deploy

type_synonym Runtime = "Work list"

text \<open>
  \<open>defineTask(name, callback, this)\<close> comes from core-fields, which is not among the
  sources; all that is used of it is that each call returns a new task object for the
  callback it was given.
\<close>

definition defineTask :: "Work \<Rightarrow> Runtime \<Rightarrow> TaskId \<times> Runtime" where
  "defineTask w rt = (length rt, rt @ [w])"

text \<open>What a getter returns: \<open>Promise.resolve(this)\<close>, \<open>Promise.resolve(client)\<close> with
  \<open>client = new $C(this.agent, this.address, this.codeHash, this)\<close> (the class \<open>$C\<close>
  first), or a task.\<close>

datatype Promise =
    ResolvedThis
  | ResolvedClient ObjRef "ObjRef option" "Address option" "CodeHash option"
  | Task TaskId

text \<open>\<open>build\<close>, \<open>upload\<close> and \<open>deploy\<close> return \<open>defineTask(name, callback, this)\<close>.\<close>

definition build :: "'a ContractTemplate_scheme \<Rightarrow> Runtime \<Rightarrow> TaskId \<times> Runtime" where
  "build c rt = defineTask Compile rt"

definition upload' :: "'a ContractTemplate_scheme \<Rightarrow> Runtime \<Rightarrow> TaskId \<times> Runtime" where
  "upload' c rt = defineTask Upload rt"

definition deploy :: "Contract \<Rightarrow> Runtime \<Rightarrow> TaskId \<times> Runtime" where
  "deploy c rt = defineTask Deploy rt"

text \<open>
  \<^verbatim>\<open>
  get compiled () {
    if (this.artifact) return Promise.resolve(this)
    return this.build()
  }
  \<close>
  (\<open>ContractTemplate\<close>, lines 103-106, and the older \<open>Contract\<close>, lines 677-680.)
\<close>

definition compiled ::
    "'a ContractTemplate_scheme \<Rightarrow> Runtime \<Rightarrow> Promise \<times> 'a ContractTemplate_scheme \<times> Runtime" where
  "compiled c rt =
     (if truthy_su (c_artifact c) then (ResolvedThis, c, rt)
      else (let (t, rt1) = build c rt in (Task t, c, rt1)))"

text \<open>
  \<^verbatim>\<open>
  get uploaded () {
    if (this.codeId) return Promise.resolve(this)
    const uploading = this.upload()
    Object.defineProperty(this, 'uploaded', { get () { return uploading } })
    return uploading
  }
  \<close>
  (\<open>ContractTemplate\<close>, lines 124-129, and the older \<open>Contract\<close>, lines 696-701.)
  Reading the property finds the own property first, when there is one.
\<close>

definition uploaded ::
    "'a ContractTemplate_scheme \<Rightarrow> Runtime \<Rightarrow> Promise \<times> 'a ContractTemplate_scheme \<times> Runtime" where
  "uploaded c rt =
     (case own_uploaded c of
        Some uploading \<Rightarrow> (Task uploading, c, rt)
      | None \<Rightarrow>
          if truthy (c_codeId c) then (ResolvedThis, c, rt)
          else (let (uploading, rt1) = upload' c rt
                in (Task uploading, c\<lparr> own_uploaded := Some uploading \<rparr>, rt1)))"

text \<open>\<open>this.client ?? Client\<close>\<close>

definition client_class :: "'a ContractTemplate_scheme \<Rightarrow> ObjRef" where
  "client_class c = (case c_client c of Some k \<Rightarrow> k | None \<Rightarrow> Client_class)"

text \<open>
  \<^verbatim>\<open>
  get deployed () {
    if (this.address) {
      this.log?.foundDeployedContract(this.address, this.id)
      const $C     = (this.client ?? Client)
      const client = new $C(this.agent, this.address, this.codeHash, this as any)
      return Promise.resolve(client)
    }
    const deploying = this.deploy()
    Object.defineProperty(this, 'deployed', { get () { return deploying } })
    return deploying
  }
  \<close>
\<close>

definition deployed :: "Contract \<Rightarrow> Runtime \<Rightarrow> Promise \<times> Contract \<times> Runtime" where
  "deployed c rt =
     (case own_deployed c of
        Some deploying \<Rightarrow> (Task deploying, c, rt)
      | None \<Rightarrow>
          if truthy (c_address c)
          then (ResolvedClient (client_class c) (c_agent c) (c_address c) (c_codeHash c), c, rt)
          else (let (deploying, rt1) = deploy c rt
                in (Task deploying, c\<lparr> own_deployed := Some deploying \<rparr>, rt1)))"

text \<open>
  What can happen to a contract between two reads: its properties are read, or
  \<open>define\<close> gives its fields new values (the own properties stay as they are).
\<close>

datatype Event = ReadCompiled | ReadUploaded | ReadDeployed | Define Contract

fun step :: "Contract \<times> Runtime \<Rightarrow> Event \<Rightarrow> Promise option \<times> Contract \<times> Runtime" where
  "step (c, rt) ReadCompiled = (let (p, c1, rt1) = compiled c rt in (Some p, c1, rt1))"
| "step (c, rt) ReadUploaded = (let (p, c1, rt1) = uploaded c rt in (Some p, c1, rt1))"
| "step (c, rt) ReadDeployed = (let (p, c1, rt1) = deployed c rt in (Some p, c1, rt1))"
| "step (c, rt) (Define d) =
     (None, d\<lparr> own_uploaded := own_uploaded c, own_deployed := own_deployed c \<rparr>, rt)"

text \<open>The events in order, with what each read returned.\<close>

fun steps :: "Contract \<times> Runtime \<Rightarrow> Event list \<Rightarrow> (Event \<times> Promise option) list \<times> Contract \<times> Runtime" where
  "steps (c, rt) [] = ([], c, rt)"
| "steps (c, rt) (e # es) =
     (let (p, c1, rt1) = step (c, rt) e;
          (obs, c2, rt2) = steps (c1, rt1) es
      in ((e, p) # obs, c2, rt2))"

definition started :: "Work \<Rightarrow> Runtime \<Rightarrow> nat" where
  "started w rt = length (filter (\<lambda>x. x = w) rt)"

subsection \<open>The bodies of the build and deploy tasks\<close>







subsection \<open>matches\<close>













section \<open>Devnet.load (the Devnet class of the devnet package)\<close>

text \<open>The contents of \<open>devnet.json\<close>: \<open>{ chainId, port, ... }\<close>.\<close>

record DevnetState =
  st_chainId :: "string option"
  st_port :: "nat option"
  st_containerId :: "string option"
  st_host :: "string option"

text \<open>
  \<open>this.nodeState.load()\<close> either gives the stored data or throws (the file does not
  parse, or holds no object for \<open>const { chainId, port } = data\<close> to read).
\<close>

datatype NodeStateFile = Loads DevnetState | Fails string

text \<open>The state directory: absent, or present with or without \<open>devnet.json\<close> in it.\<close>

datatype StateRoot = Absent | Directory "NodeStateFile option"

record Devnet_obj =
  d_chainId :: ChainId
  d_port :: "nat option"
  d_host :: string
  d_ephemeral :: bool
  d_path :: string

datatype DevnetLog =
    LoadingState "string option" string
  | LoadingFailed string
  | LoadingRejected string

definition stateRoot_exists :: "StateRoot \<Rightarrow> bool" where
  "stateRoot_exists fs = (fs \<noteq> Absent)"

definition nodeState_exists :: "StateRoot \<Rightarrow> bool" where
  "nodeState_exists fs = (case fs of Directory (Some f) \<Rightarrow> True | _ \<Rightarrow> False)"

definition nodeState_load :: "StateRoot \<Rightarrow> error + DevnetState" where
  "nodeState_load fs =
     (case fs of
        Directory (Some (Loads data)) \<Rightarrow> Inr data
      | Directory (Some (Fails why)) \<Rightarrow> Inl (Failure why)
      | _ \<Rightarrow> Inl (Failure ''no such file''))"

definition stateRoot_delete :: "StateRoot \<Rightarrow> StateRoot" where
  "stateRoot_delete fs = Absent"

text \<open>
  \<^verbatim>\<open>
  async load (): Promise<DevnetState|null> {
    const path = this.nodeState.shortPath
    if (this.stateRoot.exists() && this.nodeState.exists()) {
      try {
        const data = this.nodeState.load()
        const { chainId, port } = data
        if (this.chainId !== chainId) {
          this.log.devnet.loadingState(chainId, this.chainId)
        }
        this.port = port as number
        return data
      } catch (e) {
        this.log.devnet.loadingFailed(path)
        this.stateRoot.delete()
        throw e
      }
    } else {
      this.log.devnet.loadingRejected(path)
      return null
    }
  }
  \<close>
  The result comes with the devnet object, the state directory and the log lines it
  leaves behind; \<open>Inr None\<close> is the \<open>null\<close>.
\<close>

definition load :: "Devnet_obj \<Rightarrow> StateRoot \<Rightarrow> (error + DevnetState option) \<times> Devnet_obj \<times> StateRoot \<times> DevnetLog list" where
  "load d fs =
     (if stateRoot_exists fs \<and> nodeState_exists fs then
        (case nodeState_load fs of
           Inr data \<Rightarrow>
             (Inr (Some data), d\<lparr> d_port := st_port data \<rparr>, fs,
              if Some (d_chainId d) \<noteq> st_chainId data
              then [LoadingState (st_chainId data) (d_chainId d)] else [])
         | Inl e \<Rightarrow> (Inl e, d, stateRoot_delete fs, [LoadingFailed (d_path d)]))
      else (Inr None, d, fs, [LoadingRejected (d_path d)]))"

section \<open>Mocknet base64 helpers (mocknet-data, of which only the tests are among the sources)\<close>

text \<open>
  A JS string is kept as the list of its code points, a byte as a number below 256, and
  base64 text as a \<open>string\<close>.  A well-formed string holds Unicode scalar values only.
\<close>

text \<open>
  The module mocknet-data, which holds \<open>b64toUtf8\<close> and \<open>utf8toB64\<close>, is missing from
  the sources.  The spec describes what they do: the \<open>Binary\<close> fields are "base64-encoded
  UTF-8 JSON", and "the host decodes base64 \<rightarrow> UTF-8 \<rightarrow> JSON on results, and symmetrically
  encodes on inputs".
\<close>

text \<open>Modelled from the spec: the 64 characters of base64 (mocknet-data is missing); the
  test vector \<open>IkVjaG8i\<close> uses this standard alphabet.\<close>

definition alphabet :: string where
  "alphabet = ''ABCDEFGHIJKLMNOPQRSTUVWXYZabcdefghijklmnopqrstuvwxyz0123456789+/''"

text \<open>Modelled from the spec: the character for six bits of base64 (mocknet-data is
  missing); it is applied to numbers below 64 only.\<close>

definition sextet_char :: "nat \<Rightarrow> char" where
  "sextet_char n = alphabet ! n"

text \<open>Modelled from the spec: the position of a character in the base64 alphabet
  (mocknet-data is missing).\<close>

fun index_of :: "'a list \<Rightarrow> 'a \<Rightarrow> nat option" where
  "index_of [] x = None"
| "index_of (y # ys) x = (if x = y then Some 0 else map_option Suc (index_of ys x))"

text \<open>Modelled from the spec: the six bits a base64 character stands for, if it is one
  of the alphabet (mocknet-data is missing).\<close>

definition char_sextet :: "char \<Rightarrow> nat option" where
  "char_sextet ch = index_of alphabet ch"

text \<open>Modelled from the spec: base64 encoding of bytes, three bytes to four characters,
  padded with \<open>=\<close> (mocknet-data is missing).\<close>

fun b64encode :: "nat list \<Rightarrow> string" where
  "b64encode (a # b # c # rest) =
     sextet_char (a div 4) # sextet_char ((a mod 4) * 16 + b div 16) #
     sextet_char ((b mod 16) * 4 + c div 64) # sextet_char (c mod 64) # b64encode rest"
| "b64encode [a, b] =
     [sextet_char (a div 4), sextet_char ((a mod 4) * 16 + b div 16),
      sextet_char ((b mod 16) * 4), CHR ''='']"
| "b64encode [a] = [sextet_char (a div 4), sextet_char ((a mod 4) * 16), CHR ''='', CHR ''='']"
| "b64encode [] = []"

text \<open>Modelled from the spec: base64 decoding, four characters to three bytes, with one or
  two \<open>=\<close> at the end only; other text has no decoding (mocknet-data is missing).\<close>

fun b64decode :: "string \<Rightarrow> nat list option" where
  "b64decode (w # x # y # z # rest) =
     (case (char_sextet w, char_sextet x) of
        (Some p, Some q) \<Rightarrow>
          if y = CHR ''='' \<and> z = CHR ''='' \<and> rest = [] then Some [p * 4 + q div 16]
          else (case char_sextet y of
                  Some r \<Rightarrow>
                    if z = CHR ''='' \<and> rest = []
                    then Some [p * 4 + q div 16, (q mod 16) * 16 + r div 4]
                    else (case char_sextet z of
                            Some s \<Rightarrow>
                              map_option
                                (\<lambda>bs. (p * 4 + q div 16) # ((q mod 16) * 16 + r div 4) #
                                       ((r mod 4) * 64 + s) # bs)
                                (b64decode rest)
                          | None \<Rightarrow> None)
                | None \<Rightarrow> None)
      | _ \<Rightarrow> None)"
| "b64decode [] = Some []"
| "b64decode _ = None"

text \<open>Modelled from the spec: the code points a well-formed string holds, the Unicode
  scalar values (mocknet-data is missing).\<close>

definition scalar :: "nat \<Rightarrow> bool" where
  "scalar c = (c < 0xD800 \<or> (0xE000 \<le> c \<and> c < 0x110000))"

text \<open>Modelled from the spec: the UTF-8 bytes of one code point (mocknet-data is
  missing).\<close>

definition utf8_encode_cp :: "nat \<Rightarrow> nat list" where
  "utf8_encode_cp c =
     (if c < 0x80 then [c]
      else if c < 0x800 then [0xC0 + c div 64, 0x80 + c mod 64]
      else if c < 0x10000 then [0xE0 + c div 4096, 0x80 + (c div 64) mod 64, 0x80 + c mod 64]
      else [0xF0 + c div 262144, 0x80 + (c div 4096) mod 64, 0x80 + (c div 64) mod 64,
            0x80 + c mod 64])"

text \<open>Modelled from the spec: the UTF-8 bytes of a string (mocknet-data is missing).\<close>

definition utf8_encode :: "nat list \<Rightarrow> nat list" where
  "utf8_encode cs = concat (map utf8_encode_cp cs)"

text \<open>Modelled from the spec: a continuation byte of UTF-8 (mocknet-data is missing).\<close>

definition continuation :: "nat \<Rightarrow> bool" where
  "continuation b = (0x80 \<le> b \<and> b < 0xC0)"

text \<open>Modelled from the spec: the code point that starts with byte \<open>b0\<close>, and how many of
  the bytes after it belong to it; overlong forms, surrogates, values past \<open>10FFFF\<close> and
  broken sequences have no decoding (mocknet-data is missing).\<close>

definition utf8_step :: "nat \<Rightarrow> nat list \<Rightarrow> (nat \<times> nat) option" where
  "utf8_step b0 bs =
     (if b0 < 0x80 then Some (b0, 0)
      else if 0xC0 \<le> b0 \<and> b0 < 0xE0 then
        (case bs of
           b1 # r \<Rightarrow>
             (let c = (b0 - 0xC0) * 64 + (b1 - 0x80)
              in if continuation b1 \<and> 0x80 \<le> c then Some (c, 1) else None)
         | _ \<Rightarrow> None)
      else if 0xE0 \<le> b0 \<and> b0 < 0xF0 then
        (case bs of
           b1 # b2 # r \<Rightarrow>
             (let c = (b0 - 0xE0) * 4096 + (b1 - 0x80) * 64 + (b2 - 0x80)
              in if continuation b1 \<and> continuation b2 \<and> 0x800 \<le> c \<and> scalar c
                 then Some (c, 2) else None)
         | _ \<Rightarrow> None)
      else if 0xF0 \<le> b0 \<and> b0 < 0xF8 then
        (case bs of
           b1 # b2 # b3 # r \<Rightarrow>
             (let c = (b0 - 0xF0) * 262144 + (b1 - 0x80) * 4096 + (b2 - 0x80) * 64 + (b3 - 0x80)
              in if continuation b1 \<and> continuation b2 \<and> continuation b3 \<and>
                    0x10000 \<le> c \<and> c < 0x110000
                 then Some (c, 3) else None)
         | _ \<Rightarrow> None)
      else None)"

text \<open>Modelled from the spec: the string a sequence of UTF-8 bytes holds (mocknet-data is
  missing).\<close>

fun utf8_decode :: "nat list \<Rightarrow> nat list option" where
  "utf8_decode [] = Some []"
| "utf8_decode (b0 # bs) =
     (case utf8_step b0 bs of
        None \<Rightarrow> None
      | Some (c, n) \<Rightarrow> map_option ((#) c) (utf8_decode (drop n bs)))"

text \<open>Modelled from the spec: \<open>utf8toB64\<close> of mocknet-data (missing), the base64 text of
  the UTF-8 bytes of a string.\<close>

definition utf8toB64 :: "nat list \<Rightarrow> string" where
  "utf8toB64 str = b64encode (utf8_encode str)"

text \<open>Modelled from the spec: \<open>b64toUtf8\<close> of mocknet-data (missing), the string
  whose UTF-8 bytes the base64 text holds.\<close>

definition b64toUtf8 :: "string \<Rightarrow> nat list option" where
  "b64toUtf8 str = (case b64decode str of None \<Rightarrow> None | Some bytes \<Rightarrow> utf8_decode bytes)"

text \<open>The text \<open>"Echo"\<close> with its two double quotes, as the tests have it.\<close>

definition quoted_Echo :: "nat list" where
  "quoted_Echo = [34, 69, 99, 104, 111, 34]"

section \<open>Sample values\<close>

text \<open>An agent on a chain called \<open>test\<close>, a client of that agent with a default fee
  of 100 gas, a fee of 300 gas for \<open>send\<close> and an agent whose exec fee is 200 gas,
  options that give nothing, stages that label
  a contract by its name, upload nothing and instantiate at a fixed address, a builder
  that gives \<open>echo.wasm\<close> for anything, and members that read a code hash when there is
  one and have nothing else.\<close>

definition TestAgent :: Agent where
  "TestAgent =
     \<lparr> agent_chain_id = ''test'', agent_address = Some ''secret1alice'',
       agent_name = Some ''Alice'', agent_fees = None,
       agent_getCodeId = (\<lambda>a. Inr ''1''), agent_getLabel = (\<lambda>a. Inr ''label''),
       agent_getHash = (\<lambda>a. Inr ''hash''), agent_checkHash = (\<lambda>a h. Inr ''hash'') \<rparr>"

definition TestClient :: Client where
  "TestClient =
     \<lparr> client_agent =
         TestAgent\<lparr> agent_fees := Some \<lparr> send_fee = None, upload_fee = None, init_fee = None,
                                         exec_fee = Some \<lparr> fee_amount = [], gas = ''200'' \<rparr> \<rparr> \<rparr>,
       client_address = ''some-address'',
       client_fee = Some \<lparr> fee_amount = [], gas = ''100'' \<rparr>,
       client_fees = [''send'' \<mapsto> \<lparr> fee_amount = [], gas = ''300'' \<rparr>] \<rparr>"

definition no_options :: Contract where
  "no_options =
     \<lparr> c_context = None, c_repository = None, c_revision = None, c_dirty = None,
       c_workspace = None, c_crate = None, c_features = None, c_builder = None,
       c_builderId = None, c_artifact = None, c_codeHash = None, c_chainId = None,
       c_uploaderId = None, c_uploader = None, c_uploadBy = None, c_uploadTx = None,
       c_codeId = None, c_agent = None, c_client = None, own_uploaded = None,
       c_initBy = None, c_initMsg = None, c_initTx = None, c_address = None, c_label = None,
       c_prefix = None, c_id = None, c_suffix = None, own_deployed = None \<rparr>"

definition no_template_options :: ContractTemplate where
  "no_template_options =
     \<lparr> c_context = None, c_repository = None, c_revision = None, c_dirty = None,
       c_workspace = None, c_crate = None, c_features = None, c_builder = None,
       c_builderId = None, c_artifact = None, c_codeHash = None, c_chainId = None,
       c_uploaderId = None, c_uploader = None, c_uploadBy = None, c_uploadTx = None,
       c_codeId = None, c_agent = None, c_client = None, own_uploaded = None \<rparr>"





section \<open>Bundle nesting\<close>

lemma run_positive:
  "depth b > 0 \<Longrightarrow> run b memo = (ReturnsNull, b\<lparr> depth := depth b - 2 \<rparr>)"
  by (simp add: run_def Let_def)

lemma run_at_rest: "depth b \<le> 0 \<Longrightarrow> run b memo = (Submit memo, b)"
  by (simp add: run_def)

lemma bundle_times_depth: "depth (bundle_times n b) = depth b + int n"
  by (induction n arbitrary: b) (simp_all add: bundle'_def)

text \<open>From depth \<open>d\<close>, half of \<open>d\<close> (rounded up) calls of \<open>run\<close> return null and the
  next one submits.\<close>

lemma run_times_nested:
  "k = nat ((depth b + 1) div 2) \<Longrightarrow>
   fst (run_times (Suc k) memo b) = replicate k ReturnsNull @ [Submit memo]"
proof (induction k arbitrary: b)
  case 0
  then have "depth b \<le> 0" by linarith
  then show ?case by (simp add: run_at_rest)
next
  case (Suc j)
  then have pos: "depth b > 0" by linarith
  let ?b = "b\<lparr> depth := depth b - 2 \<rparr>"
  from Suc.prems have "j = nat ((depth ?b + 1) div 2)" by simp
  from Suc.IH [OF this] show ?case
    by (simp add: run_positive [OF pos] split: prod.splits)
qed

lemma nulls_after_nesting:
  "fst (run_times (Suc ((n + 1) div 2)) memo (bundle_times n (new_Bundle a))) =
     replicate ((n + 1) div 2) ReturnsNull @ [Submit memo]"
proof -
  have "depth (bundle_times n (new_Bundle a)) = int n"
    by (simp add: bundle_times_depth new_Bundle_def)
  then have "(n + 1) div 2 = nat ((depth (bundle_times n (new_Bundle a)) + 1) div 2)"
    by simp
  then show ?thesis by (rule run_times_nested)
qed

text \<open>
  C1.  The specification has N \<open>run()\<close> calls return null after N nested \<open>bundle()\<close>
  calls, each taking one off the depth, and the (N+1)-th submit.  The code takes two
  off per \<open>run()\<close>: after two \<open>bundle()\<close> calls on a fresh bundle the depth is 2, the
  first \<open>run()\<close> returns null and leaves the depth at 0, and the second \<open>run()\<close> already
  submits.
\<close>

theorem run_unnests_two_levels_at_once:
  "depth (bundle_times 2 (new_Bundle a)) = 2 \<and>
   fst (run_times 2 memo (bundle_times 2 (new_Bundle a))) = [ReturnsNull, Submit memo] \<and>
   depth (snd (run (bundle_times 2 (new_Bundle a)) memo)) = 0"
  by (simp add: eval_nat_numeral new_Bundle_def bundle'_def run_def Let_def)

section \<open>The message log of a bundle\<close>

lemma array_set_at_end: "array_set xs (length xs) v = xs @ [Some v]"
  by (simp add: array_set_def)

lemma add_appends:
  "next_id b = length (msgs b) \<Longrightarrow>
   add b m = (length (msgs b), b\<lparr> next_id := Suc (length (msgs b)), msgs := msgs b @ [Some m] \<rparr>)"
  by (simp add: add_def Let_def array_set_at_end)

lemma call_log:
  "next_id b = length (msgs b) \<Longrightarrow>
   msgs (call b c) = msgs b @ [Some (record_of (agent b) c)] \<and>
   next_id (call b c) = length (msgs (call b c)) \<and> agent (call b c) = agent b \<and>
   depth (call b c) = depth b"
  by (cases c) (simp_all add: instantiate_def init_def execute_def add_appends Let_def)

lemma calls_log:
  "next_id b = length (msgs b) \<Longrightarrow>
   msgs (foldl call b cs) = msgs b @ map (\<lambda>c. Some (record_of (agent b) c)) cs \<and>
   next_id (foldl call b cs) = length (msgs (foldl call b cs)) \<and>
   agent (foldl call b cs) = agent b"
proof (induction cs arbitrary: b)
  case Nil
  then show ?case by simp
next
  case (Cons c cs)
  from call_log [OF Cons.prems, of c]
  have step: "msgs (call b c) = msgs b @ [Some (record_of (agent b) c)]"
    and inv: "next_id (call b c) = length (msgs (call b c))"
    and ag: "agent (call b c) = agent b"
    by simp_all
  from Cons.IH [OF inv] show ?case
    by (simp add: step ag)
qed

text \<open>
  C5.  In a bundle whose next id is the length of its log (a new bundle, and every bundle
  reached from one by \<open>instantiate\<close> and \<open>execute\<close>), \<open>instantiate\<close> appends one \<open>init\<close>
  record and \<open>execute\<close> one \<open>exec\<close> record, at the next id; the instance that
  \<open>instantiate\<close> returns carries the template's \<open>codeId\<close> and \<open>codeHash\<close> and has
  \<open>address = null\<close>; and after any sequence of such calls the log holds their records in
  the order of the calls.
\<close>

theorem bundle_log_follows_calls:
  assumes "next_id b = length (msgs b)"
  shows
    "msgs (snd (instantiate b t l m)) =
       msgs b @ [Some (Init (agent_address (agent b)) (String_of (codeId t)) (codeHash t) l m [])] \<and>
     next_id (snd (instantiate b t l m)) = next_id b + 1 \<and>
     codeId (fst (instantiate b t l m)) = codeId t \<and>
     codeHash (fst (instantiate b t l m)) = codeHash t \<and>
     address (fst (instantiate b t l m)) = None \<and>
     msgs (execute b i x s) =
       msgs b @ [Some (Exec (agent_address (agent b)) (address i) (codeHash i) x s)] \<and>
     next_id (execute b i x s) = next_id b + 1 \<and>
     msgs (foldl call b cs) = msgs b @ map (\<lambda>c. Some (record_of (agent b) c)) cs \<and>
     next_id (foldl call b cs) = length (msgs (foldl call b cs)) \<and>
     fst (add b r) = next_id b \<and> msgs (snd (add b r)) ! next_id b = Some r \<and>
     next_id (bundle' b) = length (msgs (bundle' b)) \<and>
     next_id (snd (run b memo)) = length (msgs (snd (run b memo)))"
  using assms calls_log [OF assms, of cs]
  by (simp add: instantiate_def init_def execute_def add_appends Let_def bundle'_def run_def)

theorem bundle_log_follows_calls_witness:
  "next_id (new_Bundle TestAgent) = length (msgs (new_Bundle TestAgent)) \<and>
   msgs (foldl call (new_Bundle TestAgent)
      [CallExecute \<lparr> uploadTx = None, chainId = None, codeId = None, codeHash = Some ''h'',
                     address = Some ''secret1c'', label = None \<rparr> (MsgString ''first'') None,
       CallInstantiate \<lparr> uploadTx = None, chainId = None, codeId = Some ''7'',
                         codeHash = Some ''h'' \<rparr> ''l'' (MsgString ''second'')]) =
   [Some (Exec (Some ''secret1alice'') (Some ''secret1c'') (Some ''h'') (MsgString ''first'') None),
    Some (Init (Some ''secret1alice'') ''7'' (Some ''h'') ''l'' (MsgString ''second'') [])]"
  using bundle_log_follows_calls [where b = "new_Bundle TestAgent" and cs =
      "[CallExecute \<lparr> uploadTx = None, chainId = None, codeId = None, codeHash = Some ''h'',
                     address = Some ''secret1c'', label = None \<rparr> (MsgString ''first'') None,
        CallInstantiate \<lparr> uploadTx = None, chainId = None, codeId = Some ''7'',
                         codeHash = Some ''h'' \<rparr> ''l'' (MsgString ''second'')]"]
  by (simp add: new_Bundle_def TestAgent_def String_of_def)

section \<open>What a bundle refuses\<close>

text \<open>
  C4.  In a bundle, \<open>query\<close>, \<open>upload\<close>, \<open>uploadMany\<close>, \<open>getBalance\<close>, \<open>send\<close>,
  \<open>sendMany\<close> and the properties \<open>height\<close> and \<open>nextBlock\<close> fail with a \<open>NotInBundle\<close>
  error and leave the message log as it was; \<open>getCodeId\<close>, \<open>getLabel\<close>, \<open>getHash\<close> and
  \<open>checkHash\<close> return what the wrapped agent returns.
\<close>

theorem bundle_forbids_chain_state:
  "is_NotInBundle (fst (query b c m)) \<and> msgs (snd (query b c m)) = msgs b \<and>
   is_NotInBundle (fst (upload b code)) \<and> msgs (snd (upload b code)) = msgs b \<and>
   is_NotInBundle (fst (uploadMany b codes)) \<and> msgs (snd (uploadMany b codes)) = msgs b \<and>
   is_NotInBundle (fst (getBalance b d)) \<and> msgs (snd (getBalance b d)) = msgs b \<and>
   is_NotInBundle (fst (send b to amounts)) \<and> msgs (snd (send b to amounts)) = msgs b \<and>
   is_NotInBundle (fst (sendMany b outputs)) \<and> msgs (snd (sendMany b outputs)) = msgs b \<and>
   is_NotInBundle (fst (height b)) \<and> msgs (snd (height b)) = msgs b \<and>
   is_NotInBundle (fst (nextBlock b)) \<and> msgs (snd (nextBlock b)) = msgs b \<and>
   getCodeId b a = (agent_getCodeId (agent b) a, b) \<and>
   getLabel b a = (agent_getLabel (agent b) a, b) \<and>
   getHash b a = (agent_getHash (agent b) a, b) \<and>
   checkHash b a h = (agent_checkHash (agent b) a h, b)"
  by (simp add: query_def upload_def uploadMany_def getBalance_def send_def sendMany_def
      height_def nextBlock_def getCodeId_def getLabel_def getHash_def checkHash_def)

theorem bundle_forbids_chain_state_witness:
  "fst (getBalance (new_Bundle TestAgent) ''uscrt'') = Inl (NotInBundle ''query balance'') \<and>
   msgs (snd (send (new_Bundle TestAgent) ''secret1bob'' [])) = [] \<and>
   fst (getCodeId (new_Bundle TestAgent) ''secret1c'') = Inr ''1'' \<and>
   fst (checkHash (new_Bundle TestAgent) ''secret1c'' None) = Inr ''hash''"
  using bundle_forbids_chain_state [where b = "new_Bundle TestAgent" and d = "''uscrt''"
      and to = "''secret1bob''" and amounts = "[]" and a = "''secret1c''" and h = None]
  by (simp add: new_Bundle_def TestAgent_def getBalance_def)

section \<open>The node option of a chain\<close>

text \<open>
  C6.  A chain constructed with an id and a \<open>node\<close> option: when the mode is not Devnet
  the node field stays unset and the one warning \<open>warnNodeNonDevnet\<close> is logged; when the
  mode is Devnet the node is kept, the chain ends with the node's url and chain id, and a
  warning is logged for the url exactly when the provided url differs from the node's
  and for the id exactly when the provided id differs from the node's.  \<open>devMode\<close> holds
  exactly when the mode is Devnet or Mocknet.
\<close>

theorem chain_node_option:
  assumes "cid \<noteq> []" and "opt_node options = Some n"
  shows
    "(opt_mode options \<noteq> Some Devnet \<longrightarrow>
        (\<exists>c. new_Chain cid options = Inr (c, [WarnNodeNonDevnet]) \<and> chain_node c = None \<and>
             chain_id c = cid \<and> chain_url c = provided_url options)) \<and>
     (opt_mode options = Some Devnet \<longrightarrow>
        (\<exists>c ws. new_Chain cid options = Inr (c, ws) \<and> chain_node c = Some n \<and>
             chain_url c = node_url n \<and> chain_id c = node_chainId n \<and>
             ws = (if provided_url options \<noteq> node_url n
                   then [WarnUrlOverride (node_url n) (provided_url options)] else []) @
                  (if cid \<noteq> node_chainId n then [WarnIdOverride (node_chainId n) cid] else []))) \<and>
     (\<forall>c. devMode c \<longleftrightarrow> chain_mode c = Some Devnet \<or> chain_mode c = Some Mocknet)"
  using assms
  by (auto simp: new_Chain_def Let_def provided_url_def devMode_def isDevnet_def isMocknet_def
      split: option.splits)

theorem chain_node_option_witness:
  "''dev'' \<noteq> [] \<and>
   new_Chain ''dev'' \<lparr> opt_url = None, opt_mode = Some Devnet,
       opt_node = Some \<lparr> node_chainId = ''scrt-devnet'', node_url = ''http://test:0/'' \<rparr> \<rparr> =
     Inr (\<lparr> chain_id = ''scrt-devnet'', chain_url = ''http://test:0/'', chain_mode = Some Devnet,
            chain_node = Some \<lparr> node_chainId = ''scrt-devnet'', node_url = ''http://test:0/'' \<rparr> \<rparr>,
          [WarnUrlOverride ''http://test:0/'' [], WarnIdOverride ''scrt-devnet'' ''dev'']) \<and>
   new_Chain ''main'' \<lparr> opt_url = Some ''example.com'', opt_mode = Some Mainnet,
       opt_node = Some \<lparr> node_chainId = ''scrt-devnet'', node_url = ''http://test:0/'' \<rparr> \<rparr> =
     Inr (\<lparr> chain_id = ''main'', chain_url = ''example.com'', chain_mode = Some Mainnet,
            chain_node = None \<rparr>, [WarnNodeNonDevnet])"
  using
    chain_node_option [where cid = "''dev''" and n = "\<lparr> node_chainId = ''scrt-devnet'', node_url = ''http://test:0/'' \<rparr>"
      and options = "\<lparr> opt_url = None, opt_mode = Some Devnet,
       opt_node = Some \<lparr> node_chainId = ''scrt-devnet'', node_url = ''http://test:0/'' \<rparr> \<rparr>"]
    chain_node_option [where cid = "''main''" and n = "\<lparr> node_chainId = ''scrt-devnet'', node_url = ''http://test:0/'' \<rparr>"
      and options = "\<lparr> opt_url = Some ''example.com'', opt_mode = Some Mainnet,
       opt_node = Some \<lparr> node_chainId = ''scrt-devnet'', node_url = ''http://test:0/'' \<rparr> \<rparr>"]
  by (simp add: new_Chain_def provided_url_def Let_def)

section \<open>The fee of a transaction\<close>

text \<open>For a key that is no member of \<open>Object.prototype\<close>, \<open>getFee\<close> returns the fee
  registered under it, otherwise the client's default fee, otherwise the agent's exec
  fee; for a key that is one and has no fee registered, it returns the inherited
  member.\<close>

lemma getFee_registered_or_default:
  assumes "k \<notin> set Object_prototype"
  shows "getFee c (Some (MsgString k)) =
           Inr (case client_fees c k of
                  Some f \<Rightarrow> Some (FeeOf f)
                | None \<Rightarrow> (case client_fee c of
                             Some d \<Rightarrow> Some (FeeOf d)
                           | None \<Rightarrow> (case agent_fees (client_agent c) of
                                        None \<Rightarrow> None
                                      | Some fs \<Rightarrow> map_option FeeOf (exec_fee fs))))"
  using assms
  by (simp add: getFee_def fees_get_def or_else_def agent_exec_fee_def split: option.splits)

lemma getFee_inherited:
  assumes "client_fees c k = None" and "k \<in> set Object_prototype"
  shows "getFee c (Some (MsgString k)) = Inr (Some (Inherited k))"
    and "getFee c (Some (MsgObject [(k, v)])) = Inr (Some (Inherited k))"
  using assms by (simp_all add: getFee_def fees_get_def or_else_def)

lemma getFee_throws:
  "isl (getFee c msg) \<longleftrightarrow> (\<exists>kvs. msg = Some (MsgObject kvs) \<and> length kvs \<noteq> 1)"
  by (auto simp: getFee_def Let_def split: option.splits Message.splits)

text \<open>
  C10.  \<open>getFee(msg)\<close> throws exactly when \<open>msg\<close> is an object whose number of root
  keys is not one.  For an object with the one key \<open>k\<close> it returns what it returns for
  the string \<open>k\<close>: the fee registered under \<open>k\<close> when there is one; otherwise, when
  \<open>k\<close> is the name of a member of \<open>Object.prototype\<close>, that inherited member, which is
  no fee; otherwise what it returns without a message, the client's default fee or,
  failing that, the agent's exec fee.  \<open>getFee\<close> is declared to return
  \<open>IFee|undefined\<close>, so on a client with no fee registered under \<open>constructor\<close>,
  \<open>getFee('constructor')\<close> does not return what it is meant to.
\<close>

theorem getFee_returns_inherited_member:
  "(isl (getFee c msg) \<longleftrightarrow> (\<exists>kvs. msg = Some (MsgObject kvs) \<and> length kvs \<noteq> 1)) \<and>
   (length kvs \<noteq> 1 \<longrightarrow>
      getFee c (Some (MsgObject kvs)) =
        Inl (Error ''Client#getFee: messages must have exactly 1 root key'')) \<and>
   getFee c (Some (MsgObject [(k, v)])) = getFee c (Some (MsgString k)) \<and>
   (client_fees c k = Some f \<longrightarrow> getFee c (Some (MsgString k)) = Inr (Some (FeeOf f))) \<and>
   (client_fees c k = None \<and> k \<in> set Object_prototype \<longrightarrow>
      getFee c (Some (MsgString k)) = Inr (Some (Inherited k))) \<and>
   (client_fees c k = None \<and> k \<notin> set Object_prototype \<longrightarrow>
      getFee c (Some (MsgString k)) = getFee c None) \<and>
   getFee c None =
     Inr (case client_fee c of
            Some d \<Rightarrow> Some (FeeOf d)
          | None \<Rightarrow> (case agent_fees (client_agent c) of
                       None \<Rightarrow> None
                     | Some fs \<Rightarrow> map_option FeeOf (exec_fee fs)))"
proof -
  have 1: "length kvs \<noteq> 1 \<longrightarrow>
      getFee c (Some (MsgObject kvs)) =
        Inl (Error ''Client#getFee: messages must have exactly 1 root key'')"
    by (simp add: getFee_def)
  have 2: "getFee c (Some (MsgObject [(k, v)])) = getFee c (Some (MsgString k))"
    by (simp add: getFee_def)
  have 3: "client_fees c k = Some f \<longrightarrow> getFee c (Some (MsgString k)) = Inr (Some (FeeOf f))"
    by (simp add: getFee_def fees_get_def or_else_def)
  have 4: "client_fees c k = None \<and> k \<in> set Object_prototype \<longrightarrow>
      getFee c (Some (MsgString k)) = Inr (Some (Inherited k))"
    using getFee_inherited(1) [of c k] by simp
  have 5: "getFee c None =
     Inr (case client_fee c of
            Some d \<Rightarrow> Some (FeeOf d)
          | None \<Rightarrow> (case agent_fees (client_agent c) of
                       None \<Rightarrow> None
                     | Some fs \<Rightarrow> map_option FeeOf (exec_fee fs)))"
    by (simp add: getFee_def or_else_def agent_exec_fee_def split: option.splits)
  have 6: "client_fees c k = None \<and> k \<notin> set Object_prototype \<longrightarrow>
      getFee c (Some (MsgString k)) = getFee c None"
    using getFee_registered_or_default [of k c] by (simp add: 5)
  from getFee_throws [of c msg] 1 2 3 4 5 6 show ?thesis
    by simp
qed

theorem getFee_returns_inherited_member_witness:
  "getFee TestClient (Some (MsgString ''constructor'')) = Inr (Some (Inherited ''constructor'')) \<and>
   getFee TestClient (Some (MsgObject [(''toString'', JObj [])])) =
     Inr (Some (Inherited ''toString'')) \<and>
   getFee TestClient (Some (MsgString ''send'')) = Inr (Some (FeeOf \<lparr> fee_amount = [], gas = ''300'' \<rparr>)) \<and>
   getFee TestClient (Some (MsgString ''transfer'')) =
     Inr (Some (FeeOf \<lparr> fee_amount = [], gas = ''100'' \<rparr>)) \<and>
   getFee (TestClient\<lparr> client_fee := None \<rparr>) (Some (MsgObject [(''transfer'', JObj [])])) =
     Inr (Some (FeeOf \<lparr> fee_amount = [], gas = ''200'' \<rparr>)) \<and>
   getFee TestClient None = Inr (Some (FeeOf \<lparr> fee_amount = [], gas = ''100'' \<rparr>)) \<and>
   getFee TestClient (Some (MsgObject [])) =
     Inl (Error ''Client#getFee: messages must have exactly 1 root key'') \<and>
   isl (getFee TestClient (Some (MsgObject [(''send'', JObj []), (''transfer'', JObj [])])))"
  using
    getFee_returns_inherited_member [where c = TestClient
      and msg = "Some (MsgObject [(''send'', JObj []), (''transfer'', JObj [])])"
      and kvs = "[]" and k = "''constructor''" and v = "JObj []"
      and f = "\<lparr> fee_amount = [], gas = ''300'' \<rparr>"]
    getFee_returns_inherited_member [where c = TestClient and msg = None
      and kvs = "[]" and k = "''toString''" and v = "JObj []"
      and f = "\<lparr> fee_amount = [], gas = ''300'' \<rparr>"]
    getFee_returns_inherited_member [where c = TestClient and msg = None
      and kvs = "[]" and k = "''send''" and v = "JObj []"
      and f = "\<lparr> fee_amount = [], gas = ''300'' \<rparr>"]
    getFee_returns_inherited_member [where c = TestClient and msg = None
      and kvs = "[]" and k = "''transfer''" and v = "JObj []"
      and f = "\<lparr> fee_amount = [], gas = ''300'' \<rparr>"]
    getFee_returns_inherited_member [where c = "TestClient\<lparr> client_fee := None \<rparr>" and msg = None
      and kvs = "[]" and k = "''transfer''" and v = "JObj []"
      and f = "\<lparr> fee_amount = [], gas = ''300'' \<rparr>"]
  by (simp add: TestClient_def TestAgent_def Object_prototype_def)

section \<open>Loading the state of a devnet\<close>

text \<open>
  C8.  \<open>load()\<close> returns null and changes neither the devnet object nor the state
  directory when the directory or \<open>devnet.json\<close> does not exist.  When \<open>devnet.json\<close>
  loads, it puts the stored port on the devnet object and returns the stored data; a
  stored chain id that differs from the devnet's only adds a log line.  When
  \<open>devnet.json\<close> exists and fails to load, the state directory is deleted and the error
  is thrown again.
\<close>

theorem devnet_load:
  "(\<not> (stateRoot_exists fs \<and> nodeState_exists fs) \<longrightarrow>
      load d fs = (Inr None, d, fs, [LoadingRejected (d_path d)])) \<and>
   (fs = Directory (Some (Loads data)) \<longrightarrow>
      load d fs = (Inr (Some data), d\<lparr> d_port := st_port data \<rparr>, fs,
                   if Some (d_chainId d) \<noteq> st_chainId data
                   then [LoadingState (st_chainId data) (d_chainId d)] else [])) \<and>
   (fs = Directory (Some (Fails why)) \<longrightarrow>
      load d fs = (Inl (Failure why), d, Absent, [LoadingFailed (d_path d)]))"
  by (simp add: load_def stateRoot_exists_def nodeState_exists_def nodeState_load_def
      stateRoot_delete_def)

theorem devnet_load_witness:
  "load \<lparr> d_chainId = ''fadroma-devnet'', d_port = Some 1317, d_host = ''localhost'',
          d_ephemeral = False, d_path = ''state/fadroma-devnet/devnet.json'' \<rparr> (Directory None) =
     (Inr None,
      \<lparr> d_chainId = ''fadroma-devnet'', d_port = Some 1317, d_host = ''localhost'',
        d_ephemeral = False, d_path = ''state/fadroma-devnet/devnet.json'' \<rparr>,
      Directory None, [LoadingRejected ''state/fadroma-devnet/devnet.json'']) \<and>
   load \<lparr> d_chainId = ''fadroma-devnet'', d_port = Some 1317, d_host = ''localhost'',
          d_ephemeral = False, d_path = ''state/fadroma-devnet/devnet.json'' \<rparr>
        (Directory (Some (Loads \<lparr> st_chainId = Some ''other'', st_port = Some 9091,
                                  st_containerId = None, st_host = None \<rparr>))) =
     (Inr (Some \<lparr> st_chainId = Some ''other'', st_port = Some 9091,
                  st_containerId = None, st_host = None \<rparr>),
      \<lparr> d_chainId = ''fadroma-devnet'', d_port = Some 9091, d_host = ''localhost'',
        d_ephemeral = False, d_path = ''state/fadroma-devnet/devnet.json'' \<rparr>,
      Directory (Some (Loads \<lparr> st_chainId = Some ''other'', st_port = Some 9091,
                                st_containerId = None, st_host = None \<rparr>)),
      [LoadingState (Some ''other'') ''fadroma-devnet'']) \<and>
   load \<lparr> d_chainId = ''fadroma-devnet'', d_port = Some 1317, d_host = ''localhost'',
          d_ephemeral = False, d_path = ''state/fadroma-devnet/devnet.json'' \<rparr>
        (Directory (Some (Fails ''Unexpected end of JSON input''))) =
     (Inl (Failure ''Unexpected end of JSON input''),
      \<lparr> d_chainId = ''fadroma-devnet'', d_port = Some 1317, d_host = ''localhost'',
        d_ephemeral = False, d_path = ''state/fadroma-devnet/devnet.json'' \<rparr>,
      Absent, [LoadingFailed ''state/fadroma-devnet/devnet.json''])"
  using
    devnet_load [where fs = "Directory None" and d = "\<lparr> d_chainId = ''fadroma-devnet'',
      d_port = Some 1317, d_host = ''localhost'', d_ephemeral = False,
      d_path = ''state/fadroma-devnet/devnet.json'' \<rparr>"]
    devnet_load [where fs = "Directory (Some (Loads \<lparr> st_chainId = Some ''other'',
      st_port = Some 9091, st_containerId = None, st_host = None \<rparr>))"
      and data = "\<lparr> st_chainId = Some ''other'', st_port = Some 9091,
      st_containerId = None, st_host = None \<rparr>" and d = "\<lparr> d_chainId = ''fadroma-devnet'',
      d_port = Some 1317, d_host = ''localhost'', d_ephemeral = False,
      d_path = ''state/fadroma-devnet/devnet.json'' \<rparr>"]
    devnet_load [where fs = "Directory (Some (Fails ''Unexpected end of JSON input''))"
      and why = "''Unexpected end of JSON input''" and d = "\<lparr> d_chainId = ''fadroma-devnet'',
      d_port = Some 1317, d_host = ''localhost'', d_ephemeral = False,
      d_path = ''state/fadroma-devnet/devnet.json'' \<rparr>"]
  by (simp add: stateRoot_exists_def nodeState_exists_def)

section \<open>matches\<close>









section \<open>Errors of build and deploy\<close>






section \<open>The one-shot getters\<close>

lemma started_append: "started w (rt @ [x]) = started w rt + (if x = w then 1 else 0)"
  by (simp add: started_def)

lemma step_memo_uploaded:
  assumes "own_uploaded c = Some t" and "step (c, rt) e = (p, c1, rt1)"
  shows "own_uploaded c1 = Some t \<and> started Upload rt1 = started Upload rt \<and>
         (e = ReadUploaded \<longrightarrow> p = Some (Task t))"
  using assms
  by (cases e)
     (auto simp: compiled_def uploaded_def deployed_def build_def deploy_def defineTask_def
        started_append Let_def split: if_splits option.splits)

lemma step_memo_deployed:
  assumes "own_deployed c = Some t" and "step (c, rt) e = (p, c1, rt1)"
  shows "own_deployed c1 = Some t \<and> started Deploy rt1 = started Deploy rt \<and>
         (e = ReadDeployed \<longrightarrow> p = Some (Task t))"
  using assms
  by (cases e)
     (auto simp: compiled_def uploaded_def deployed_def build_def upload'_def defineTask_def
        started_append Let_def split: if_splits option.splits)

lemma steps_memo_uploaded:
  assumes "own_uploaded c = Some t" and "steps (c, rt) es = (obs, c2, rt2)"
  shows "own_uploaded c2 = Some t \<and> started Upload rt2 = started Upload rt \<and>
         (\<forall>p. (ReadUploaded, p) \<in> set obs \<longrightarrow> p = Some (Task t))"
  using assms
proof (induction es arbitrary: c rt obs c2 rt2)
  case Nil
  then show ?case by simp
next
  case (Cons e es)
  obtain p c1 rt1 where s: "step (c, rt) e = (p, c1, rt1)"
    by (cases "step (c, rt) e") auto
  obtain obs' c2' rt2' where r: "steps (c1, rt1) es = (obs', c2', rt2')"
    by (cases "steps (c1, rt1) es") auto
  from Cons.prems(2) s r have eq: "obs = (e, p) # obs'" "c2 = c2'" "rt2 = rt2'"
    by simp_all
  from step_memo_uploaded [OF Cons.prems(1) s]
  have h: "own_uploaded c1 = Some t" "started Upload rt1 = started Upload rt"
    "e = ReadUploaded \<longrightarrow> p = Some (Task t)" by simp_all
  from Cons.IH [OF h(1) r] h eq show ?case by auto
qed

lemma steps_memo_deployed:
  assumes "own_deployed c = Some t" and "steps (c, rt) es = (obs, c2, rt2)"
  shows "own_deployed c2 = Some t \<and> started Deploy rt2 = started Deploy rt \<and>
         (\<forall>p. (ReadDeployed, p) \<in> set obs \<longrightarrow> p = Some (Task t))"
  using assms
proof (induction es arbitrary: c rt obs c2 rt2)
  case Nil
  then show ?case by simp
next
  case (Cons e es)
  obtain p c1 rt1 where s: "step (c, rt) e = (p, c1, rt1)"
    by (cases "step (c, rt) e") auto
  obtain obs' c2' rt2' where r: "steps (c1, rt1) es = (obs', c2', rt2')"
    by (cases "steps (c1, rt1) es") auto
  from Cons.prems(2) s r have eq: "obs = (e, p) # obs'" "c2 = c2'" "rt2 = rt2'"
    by simp_all
  from step_memo_deployed [OF Cons.prems(1) s]
  have h: "own_deployed c1 = Some t" "started Deploy rt1 = started Deploy rt"
    "e = ReadDeployed \<longrightarrow> p = Some (Task t)" by simp_all
  from Cons.IH [OF h(1) r] h eq show ?case by auto
qed

lemma step_fresh_uploaded:
  assumes "own_uploaded c = None" and "step (c, rt) e = (p, c1, rt1)"
  shows "(own_uploaded c1 = None \<and> started Upload rt1 = started Upload rt) \<or>
         (own_uploaded c1 \<noteq> None \<and> started Upload rt1 = started Upload rt + 1)"
  using assms
  by (cases e)
     (auto simp: compiled_def uploaded_def deployed_def build_def deploy_def upload'_def
        defineTask_def started_append Let_def split: if_splits option.splits)

lemma step_fresh_deployed:
  assumes "own_deployed c = None" and "step (c, rt) e = (p, c1, rt1)"
  shows "(own_deployed c1 = None \<and> started Deploy rt1 = started Deploy rt) \<or>
         (own_deployed c1 \<noteq> None \<and> started Deploy rt1 = started Deploy rt + 1)"
  using assms
  by (cases e)
     (auto simp: compiled_def uploaded_def deployed_def build_def deploy_def upload'_def
        defineTask_def started_append Let_def split: if_splits option.splits)

lemma steps_at_most_one_upload:
  assumes "steps (c, rt) es = (obs, c2, rt2)"
  shows "started Upload rt2 \<le> started Upload rt + (if own_uploaded c = None then 1 else 0)"
  using assms
proof (induction es arbitrary: c rt obs c2 rt2)
  case Nil
  then show ?case by simp
next
  case (Cons e es)
  obtain p c1 rt1 where s: "step (c, rt) e = (p, c1, rt1)"
    by (cases "step (c, rt) e") auto
  obtain obs' c2' rt2' where r: "steps (c1, rt1) es = (obs', c2', rt2')"
    by (cases "steps (c1, rt1) es") auto
  from Cons.prems s r have eq: "rt2 = rt2'" by simp
  note ih = Cons.IH [OF r]
  show ?case
  proof (cases "own_uploaded c")
    case None
    from step_fresh_uploaded [OF None s] ih eq None show ?thesis
      by (auto split: if_splits)
  next
    case (Some t)
    from step_memo_uploaded [OF Some s] ih eq Some show ?thesis by simp
  qed
qed

lemma steps_at_most_one_deploy:
  assumes "steps (c, rt) es = (obs, c2, rt2)"
  shows "started Deploy rt2 \<le> started Deploy rt + (if own_deployed c = None then 1 else 0)"
  using assms
proof (induction es arbitrary: c rt obs c2 rt2)
  case Nil
  then show ?case by simp
next
  case (Cons e es)
  obtain p c1 rt1 where s: "step (c, rt) e = (p, c1, rt1)"
    by (cases "step (c, rt) e") auto
  obtain obs' c2' rt2' where r: "steps (c1, rt1) es = (obs', c2', rt2')"
    by (cases "steps (c1, rt1) es") auto
  from Cons.prems s r have eq: "rt2 = rt2'" by simp
  note ih = Cons.IH [OF r]
  show ?case
  proof (cases "own_deployed c")
    case None
    from step_fresh_deployed [OF None s] ih eq None show ?thesis
      by (auto split: if_splits)
  next
    case (Some t)
    from step_memo_deployed [OF Some s] ih eq Some show ?thesis by simp
  qed
qed

text \<open>
  C2.  Reading \<open>compiled\<close> with \<open>artifact\<close> set, \<open>uploaded\<close> with \<open>codeId\<close> set or
  \<open>deployed\<close> with \<open>address\<close> set defines no task.  It resolves at once with the
  contract (for \<open>deployed\<close>: with a client at the address) when no earlier read has
  installed a task on the property, and returns that task when one has.  A read of
  \<open>uploaded\<close> or \<open>deployed\<close> that defines a task installs it on the contract; from then
  on, whatever else is read or defined, every read of that property returns that same
  task and no further upload (deploy) task is defined.  So over the whole life of a
  contract at most one upload task and at most one deploy task are defined through
  these properties.  Every read of \<open>compiled\<close> without an artifact defines a new build
  task.
\<close>

theorem stage_getters_memoized:
  "(truthy_su (c_artifact t) \<longrightarrow> compiled t rt = (ResolvedThis, t, rt)) \<and>
   (\<not> truthy_su (c_artifact t) \<longrightarrow> compiled t rt = (Task (length rt), t, rt @ [Compile])) \<and>
   (truthy (c_codeId t) \<longrightarrow>
      snd (snd (uploaded t rt)) = rt \<and>
      (own_uploaded t = None \<longrightarrow> uploaded t rt = (ResolvedThis, t, rt)) \<and>
      (\<forall>u. own_uploaded t = Some u \<longrightarrow> uploaded t rt = (Task u, t, rt))) \<and>
   (truthy (c_address c) \<longrightarrow>
      snd (snd (deployed c rt)) = rt \<and>
      (own_deployed c = None \<longrightarrow>
         deployed c rt =
           (ResolvedClient (client_class c) (c_agent c) (c_address c) (c_codeHash c), c, rt)) \<and>
      (\<forall>u. own_deployed c = Some u \<longrightarrow> deployed c rt = (Task u, c, rt))) \<and>
   (own_uploaded t = None \<and> \<not> truthy (c_codeId t) \<longrightarrow>
      uploaded t rt = (Task (length rt), t\<lparr> own_uploaded := Some (length rt) \<rparr>, rt @ [Upload])) \<and>
   (own_deployed c = None \<and> \<not> truthy (c_address c) \<longrightarrow>
      deployed c rt = (Task (length rt), c\<lparr> own_deployed := Some (length rt) \<rparr>, rt @ [Deploy])) \<and>
   (own_uploaded c = Some u \<longrightarrow>
      own_uploaded (fst (snd (steps (c, rt) es))) = Some u \<and>
      started Upload (snd (snd (steps (c, rt) es))) = started Upload rt \<and>
      (\<forall>p. (ReadUploaded, p) \<in> set (fst (steps (c, rt) es)) \<longrightarrow> p = Some (Task u))) \<and>
   (own_deployed c = Some u \<longrightarrow>
      own_deployed (fst (snd (steps (c, rt) es))) = Some u \<and>
      started Deploy (snd (snd (steps (c, rt) es))) = started Deploy rt \<and>
      (\<forall>p. (ReadDeployed, p) \<in> set (fst (steps (c, rt) es)) \<longrightarrow> p = Some (Task u))) \<and>
   started Upload (snd (snd (steps (fst (new_Contract options), rt) es))) \<le> started Upload rt + 1 \<and>
   started Deploy (snd (snd (steps (fst (new_Contract options), rt) es))) \<le> started Deploy rt + 1 \<and>
   started Upload (snd (snd (steps (new_Contract_older options, rt) es))) \<le> started Upload rt + 1 \<and>
   started Deploy (snd (snd (steps (new_Contract_older options, rt) es))) \<le> started Deploy rt + 1"
proof -
  have a: "truthy_su (c_artifact t) \<longrightarrow> compiled t rt = (ResolvedThis, t, rt)"
    by (simp add: compiled_def)
  have a': "\<not> truthy_su (c_artifact t) \<longrightarrow> compiled t rt = (Task (length rt), t, rt @ [Compile])"
    by (simp add: compiled_def build_def defineTask_def)
  have b: "truthy (c_codeId t) \<longrightarrow>
      snd (snd (uploaded t rt)) = rt \<and>
      (own_uploaded t = None \<longrightarrow> uploaded t rt = (ResolvedThis, t, rt)) \<and>
      (\<forall>u. own_uploaded t = Some u \<longrightarrow> uploaded t rt = (Task u, t, rt))"
    by (simp add: uploaded_def split: option.splits)
  have d: "truthy (c_address c) \<longrightarrow>
      snd (snd (deployed c rt)) = rt \<and>
      (own_deployed c = None \<longrightarrow>
         deployed c rt =
           (ResolvedClient (client_class c) (c_agent c) (c_address c) (c_codeHash c), c, rt)) \<and>
      (\<forall>u. own_deployed c = Some u \<longrightarrow> deployed c rt = (Task u, c, rt))"
    by (simp add: deployed_def split: option.splits)
  have e: "own_uploaded t = None \<and> \<not> truthy (c_codeId t) \<longrightarrow>
      uploaded t rt = (Task (length rt), t\<lparr> own_uploaded := Some (length rt) \<rparr>, rt @ [Upload])"
    by (simp add: uploaded_def upload'_def defineTask_def)
  have f: "own_deployed c = None \<and> \<not> truthy (c_address c) \<longrightarrow>
      deployed c rt = (Task (length rt), c\<lparr> own_deployed := Some (length rt) \<rparr>, rt @ [Deploy])"
    by (simp add: deployed_def deploy_def defineTask_def)
  obtain obs c2 rt2 where r: "steps (c, rt) es = (obs, c2, rt2)"
    by (cases "steps (c, rt) es") auto
  have g: "own_uploaded c = Some u \<longrightarrow>
      own_uploaded (fst (snd (steps (c, rt) es))) = Some u \<and>
      started Upload (snd (snd (steps (c, rt) es))) = started Upload rt \<and>
      (\<forall>p. (ReadUploaded, p) \<in> set (fst (steps (c, rt) es)) \<longrightarrow> p = Some (Task u))"
    using steps_memo_uploaded [OF _ r] by (simp add: r)
  have h: "own_deployed c = Some u \<longrightarrow>
      own_deployed (fst (snd (steps (c, rt) es))) = Some u \<and>
      started Deploy (snd (snd (steps (c, rt) es))) = started Deploy rt \<and>
      (\<forall>p. (ReadDeployed, p) \<in> set (fst (steps (c, rt) es)) \<longrightarrow> p = Some (Task u))"
    using steps_memo_deployed [OF _ r] by (simp add: r)
  obtain obs' c3 rt3 where r': "steps (fst (new_Contract options), rt) es = (obs', c3, rt3)"
    by (cases "steps (fst (new_Contract options), rt) es") auto
  have i: "started Upload (snd (snd (steps (fst (new_Contract options), rt) es))) \<le> started Upload rt + 1 \<and>
      started Deploy (snd (snd (steps (fst (new_Contract options), rt) es))) \<le> started Deploy rt + 1"
  proof -
    have "own_uploaded (fst (new_Contract options)) = None"
      "own_deployed (fst (new_Contract options)) = None"
      by (simp_all add: new_Contract_def Let_def blank_Contract_def override_contract_def
          override_template_def defineDefaults_def split: option.splits)
    with steps_at_most_one_upload [OF r'] steps_at_most_one_deploy [OF r'] show ?thesis
      by (simp add: r')
  qed
  obtain obs'' c4 rt4 where r'': "steps (new_Contract_older options, rt) es = (obs'', c4, rt4)"
    by (cases "steps (new_Contract_older options, rt) es") auto
  have j: "started Upload (snd (snd (steps (new_Contract_older options, rt) es))) \<le> started Upload rt + 1 \<and>
      started Deploy (snd (snd (steps (new_Contract_older options, rt) es))) \<le> started Deploy rt + 1"
  proof -
    have "own_uploaded (new_Contract_older options) = None"
      "own_deployed (new_Contract_older options) = None"
      by (simp_all add: new_Contract_older_def blank_Contract_def override_contract_def
          override_template_def)
    with steps_at_most_one_upload [OF r''] steps_at_most_one_deploy [OF r''] show ?thesis
      by (simp add: r'')
  qed
  from a a' b d e f g h i j show ?thesis by blast
qed

theorem stage_getters_memoized_witness:
  "compiled (new_ContractTemplate (no_template_options\<lparr> c_artifact := Some (Str ''echo.wasm'') \<rparr>)) [] =
     (ResolvedThis, new_ContractTemplate (no_template_options\<lparr> c_artifact := Some (Str ''echo.wasm'') \<rparr>), []) \<and>
   compiled (new_ContractTemplate no_template_options) [Compile] =
     (Task 1, new_ContractTemplate no_template_options, [Compile, Compile]) \<and>
   uploaded (new_ContractTemplate (no_template_options\<lparr> c_codeId := Some ''1'' \<rparr>)) [] =
     (ResolvedThis, new_ContractTemplate (no_template_options\<lparr> c_codeId := Some ''1'' \<rparr>), []) \<and>
   deployed (fst (new_Contract (no_options\<lparr> c_address := Some ''secret1c'' \<rparr>))) [] =
     (ResolvedClient Client_class None (Some ''secret1c'') None,
      fst (new_Contract (no_options\<lparr> c_address := Some ''secret1c'' \<rparr>)), []) \<and>
   uploaded (new_ContractTemplate no_template_options) [] =
     (Task 0, (new_ContractTemplate no_template_options)\<lparr> own_uploaded := Some 0 \<rparr>, [Upload]) \<and>
   deployed (fst (new_Contract no_options)) [] =
     (Task 0, (fst (new_Contract no_options))\<lparr> own_deployed := Some 0 \<rparr>, [Deploy]) \<and>
   started Upload (snd (snd (steps ((fst (new_Contract no_options))\<lparr> own_uploaded := Some 0 \<rparr>, [Upload])
      [ReadUploaded, Define (no_options\<lparr> c_codeId := Some ''1'' \<rparr>), ReadUploaded]))) = 1 \<and>
   started Deploy (snd (snd (steps ((fst (new_Contract no_options))\<lparr> own_deployed := Some 0 \<rparr>, [Deploy])
      [ReadDeployed, Define (no_options\<lparr> c_address := Some ''secret1c'' \<rparr>), ReadDeployed]))) = 1"
  using
    stage_getters_memoized [where t = "new_ContractTemplate (no_template_options\<lparr> c_artifact := Some (Str ''echo.wasm'') \<rparr>)"
      and c = "fst (new_Contract no_options)"
      and rt = "[]" and u = 0 and options = no_options
      and es = "[]"]
    stage_getters_memoized [where t = "new_ContractTemplate no_template_options"
      and c = "fst (new_Contract no_options)"
      and rt = "[Compile]" and u = 0 and options = no_options
      and es = "[]"]
    stage_getters_memoized [where t = "new_ContractTemplate (no_template_options\<lparr> c_codeId := Some ''1'' \<rparr>)"
      and c = "fst (new_Contract no_options)"
      and rt = "[]" and u = 0 and options = no_options
      and es = "[]"]
    stage_getters_memoized [where t = "new_ContractTemplate no_template_options"
      and c = "fst (new_Contract (no_options\<lparr> c_address := Some ''secret1c'' \<rparr>))"
      and rt = "[]" and u = 0 and options = no_options
      and es = "[]"]
    stage_getters_memoized [where t = "new_ContractTemplate no_template_options"
      and c = "fst (new_Contract no_options)"
      and rt = "[]" and u = 0 and options = no_options
      and es = "[]"]
    stage_getters_memoized [where t = "new_ContractTemplate no_template_options"
      and c = "(fst (new_Contract no_options))\<lparr> own_uploaded := Some 0 \<rparr>"
      and rt = "[Upload]" and u = 0 and options = no_options
      and es = "[ReadUploaded, Define (no_options\<lparr> c_codeId := Some ''1'' \<rparr>), ReadUploaded]"]
    stage_getters_memoized [where t = "new_ContractTemplate no_template_options"
      and c = "(fst (new_Contract no_options))\<lparr> own_deployed := Some 0 \<rparr>"
      and rt = "[Deploy]" and u = 0 and options = no_options
      and es = "[ReadDeployed, Define (no_options\<lparr> c_address := Some ''secret1c'' \<rparr>), ReadDeployed]"]
  by (simp add: no_options_def no_template_options_def new_Contract_def new_ContractTemplate_def
      blank_Contract_def blank_ContractTemplate_def override_contract_def override_template_def
      or_else_def truthy_def truthy_su_def started_def client_class_def)

text \<open>
  C2, where it does not hold.  \<open>compiled\<close> installs nothing, so two reads of it on a
  template (or on an older contract) without an artifact define two build tasks: at most one advance per stage
  fails for the build.  And \<open>uploaded\<close> (\<open>deployed\<close>) read when \<open>codeId\<close> (\<open>address\<close>) is
  set does not resolve with the contract when an earlier read has installed a task: it
  returns that task, which was defined before the value was there.
\<close>

theorem stage_getters_counterexample:
  "compiled (new_ContractTemplate no_template_options) [] =
     (Task 0, new_ContractTemplate no_template_options, [Compile]) \<and>
   compiled (new_ContractTemplate no_template_options) [Compile] =
     (Task 1, new_ContractTemplate no_template_options, [Compile, Compile]) \<and>
   fst (steps (new_Contract_older no_options, []) [ReadCompiled, ReadCompiled]) =
     [(ReadCompiled, Some (Task 0)), (ReadCompiled, Some (Task 1))] \<and>
   started Compile (snd (snd (steps (new_Contract_older no_options, [])
     [ReadCompiled, ReadCompiled]))) = 2 \<and>
   map snd (fst (steps (new_Contract_older no_options, [])
     [ReadUploaded, Define (no_options\<lparr> c_codeId := Some ''1'' \<rparr>), ReadUploaded])) =
     [Some (Task 0), None, Some (Task 0)] \<and>
   c_codeId (fst (snd (steps (new_Contract_older no_options, [])
     [ReadUploaded, Define (no_options\<lparr> c_codeId := Some ''1'' \<rparr>)]))) = Some ''1'' \<and>
   map snd (fst (steps (new_Contract_older no_options, [])
     [ReadDeployed, Define (no_options\<lparr> c_address := Some ''secret1c'' \<rparr>), ReadDeployed])) =
     [Some (Task 0), None, Some (Task 0)] \<and>
   c_address (fst (snd (steps (new_Contract_older no_options, [])
     [ReadDeployed, Define (no_options\<lparr> c_address := Some ''secret1c'' \<rparr>)]))) = Some ''secret1c'' \<and>
   map snd (fst (steps (fst (new_Contract no_options), [])
     [ReadDeployed, Define (no_options\<lparr> c_address := Some ''secret1c'' \<rparr>), ReadDeployed])) =
     [Some (Task 0), None, Some (Task 0)]"
  by (simp add: new_Contract_def new_Contract_older_def new_ContractTemplate_def no_options_def
      no_template_options_def blank_Contract_def blank_ContractTemplate_def override_contract_def
      override_template_def or_else_def compiled_def uploaded_def deployed_def build_def
      upload'_def deploy_def defineTask_def truthy_def truthy_su_def started_def)

section \<open>Base64 round trip\<close>

lemma index_of_nth: "distinct xs \<Longrightarrow> n < length xs \<Longrightarrow> index_of xs (xs ! n) = Some n"
proof (induction xs arbitrary: n)
  case Nil
  then show ?case by simp
next
  case (Cons y ys)
  show ?case
  proof (cases n)
    case 0
    then show ?thesis by simp
  next
    case (Suc k)
    with Cons.prems have "k < length ys" "ys ! k \<in> set ys" "y \<notin> set ys" "distinct ys"
      by auto
    with Cons.IH [of k] Suc show ?thesis by auto
  qed
qed

lemma alphabet_distinct: "distinct alphabet"
  by (simp add: alphabet_def)

lemma alphabet_length: "length alphabet = 64"
  by (simp add: alphabet_def)

lemma char_sextet_inverse: "n < 64 \<Longrightarrow> char_sextet (sextet_char n) = Some n"
  by (simp add: char_sextet_def sextet_char_def index_of_nth alphabet_distinct alphabet_length)

lemma sextet_char_not_pad: "n < 64 \<Longrightarrow> sextet_char n \<noteq> CHR ''=''"
proof -
  assume "n < 64"
  then have "alphabet ! n \<in> set alphabet"
    by (simp add: alphabet_length)
  moreover have "CHR ''='' \<notin> set alphabet"
    by (simp add: alphabet_def)
  ultimately show ?thesis by (auto simp: sextet_char_def)
qed

lemma low_part:
  fixes x y n :: nat
  assumes "y < n"
  shows "(x * n + y) div n = x" and "(x * n + y) mod n = y"
  using assms by simp_all

lemma sextet_bounds:
  fixes a b c :: nat
  assumes "a < 256" "b < 256" "c < 256"
  shows "a div 4 < 64" "(a mod 4) * 16 + b div 16 < 64" "(b mod 16) * 4 + c div 64 < 64"
    "c mod 64 < 64" "(b mod 16) * 4 < 64" "(a mod 4) * 16 < (64::nat)"
proof -
  have 1: "a mod 4 < 4" "b mod 16 < 16" by simp_all
  have 2: "b div 16 < 16" "c div 64 < 4" "a div 4 < 64"
    using assms by (simp_all add: div_less_iff_less_mult)
  show "a div 4 < 64" by (rule 2)
  show "(a mod 4) * 16 + b div 16 < 64" using 1(1) 2(1) by linarith
  show "(b mod 16) * 4 + c div 64 < 64" using 1(2) 2(2) by linarith
  show "c mod 64 < 64" by simp
  show "(b mod 16) * 4 < 64" using 1(2) by linarith
  show "(a mod 4) * 16 < 64" using 1(1) by linarith
qed

lemma sextet_join:
  fixes a b c :: nat
  assumes "a < 256" "b < 256" "c < 256"
  shows "a div 4 * 4 + ((a mod 4) * 16 + b div 16) div 16 = a"
    "((a mod 4) * 16 + b div 16) mod 16 * 16 + ((b mod 16) * 4 + c div 64) div 4 = b"
    "((b mod 16) * 4 + c div 64) mod 4 * 64 + c mod 64 = c"
    "((a mod 4) * 16 + b div 16) mod 16 * 16 + ((b mod 16) * 4) div 4 = b"
    "a div 4 * 4 + ((a mod 4) * 16) div 16 = a"
proof -
  have 2: "b div 16 < 16" "c div 64 < 4"
    using assms by (simp_all add: div_less_iff_less_mult)
  have q: "((a mod 4) * 16 + b div 16) div 16 = a mod 4"
    "((a mod 4) * 16 + b div 16) mod 16 = b div 16"
    by (rule low_part [OF 2(1)])+
  have r: "((b mod 16) * 4 + c div 64) div 4 = b mod 16"
    "((b mod 16) * 4 + c div 64) mod 4 = c div 64"
    by (rule low_part [OF 2(2)])+
  show "a div 4 * 4 + ((a mod 4) * 16 + b div 16) div 16 = a"
    unfolding q by simp
  show "((a mod 4) * 16 + b div 16) mod 16 * 16 + ((b mod 16) * 4 + c div 64) div 4 = b"
    unfolding q r by simp
  show "((b mod 16) * 4 + c div 64) mod 4 * 64 + c mod 64 = c"
    unfolding r by simp
  show "((a mod 4) * 16 + b div 16) mod 16 * 16 + ((b mod 16) * 4) div 4 = b"
    unfolding q by simp
  show "a div 4 * 4 + ((a mod 4) * 16) div 16 = a"
    by simp
qed

lemma b64decode_quad:
  assumes "char_sextet w = Some p" "char_sextet x = Some q" "char_sextet y = Some r"
    "char_sextet z = Some s" "y \<noteq> CHR ''=''" "z \<noteq> CHR ''=''"
  shows "b64decode (w # x # y # z # rest) =
     map_option (\<lambda>bs. (p * 4 + q div 16) # ((q mod 16) * 16 + r div 4) # ((r mod 4) * 64 + s) # bs)
       (b64decode rest)"
  using assms by simp

lemma b64decode_pad1:
  assumes "char_sextet w = Some p" "char_sextet x = Some q" "char_sextet y = Some r"
    "y \<noteq> CHR ''=''"
  shows "b64decode [w, x, y, CHR ''=''] = Some [p * 4 + q div 16, (q mod 16) * 16 + r div 4]"
  using assms by simp

lemma b64decode_pad2:
  assumes "char_sextet w = Some p" "char_sextet x = Some q"
  shows "b64decode [w, x, CHR ''='', CHR ''=''] = Some [p * 4 + q div 16]"
  using assms by simp

lemma b64decode_b64encode: "\<forall>b \<in> set bs. b < 256 \<Longrightarrow> b64decode (b64encode bs) = Some bs"
proof (induction bs rule: b64encode.induct)
  case (1 a b c rest)
  then have lt: "a < 256" "b < 256" "c < 256" and ih: "b64decode (b64encode rest) = Some rest"
    by simp_all
  note bd = sextet_bounds [OF lt]
  have "b64decode (b64encode (a # b # c # rest)) =
      map_option (\<lambda>bs. (a div 4 * 4 + ((a mod 4) * 16 + b div 16) div 16) #
          (((a mod 4) * 16 + b div 16) mod 16 * 16 + ((b mod 16) * 4 + c div 64) div 4) #
          (((b mod 16) * 4 + c div 64) mod 4 * 64 + c mod 64) # bs)
        (b64decode (b64encode rest))"
    unfolding b64encode.simps
    by (rule b64decode_quad)
       (simp_all only: char_sextet_inverse [OF bd(1)] char_sextet_inverse [OF bd(2)]
          char_sextet_inverse [OF bd(3)] char_sextet_inverse [OF bd(4)]
          sextet_char_not_pad [OF bd(3)] sextet_char_not_pad [OF bd(4)] not_False_eq_True)
  also have "\<dots> = Some (a # b # c # rest)"
    unfolding ih sextet_join [OF lt] by simp
  finally show ?case .
next
  case (2 a b)
  then have lt: "a < 256" "b < 256" "(0::nat) < 256" by simp_all
  note bd = sextet_bounds [OF lt]
  have "b64decode (b64encode [a, b]) =
      Some [a div 4 * 4 + ((a mod 4) * 16 + b div 16) div 16,
            ((a mod 4) * 16 + b div 16) mod 16 * 16 + ((b mod 16) * 4) div 4]"
    unfolding b64encode.simps
    by (rule b64decode_pad1)
       (simp_all only: char_sextet_inverse [OF bd(1)] char_sextet_inverse [OF bd(2)]
          char_sextet_inverse [OF bd(5)] sextet_char_not_pad [OF bd(5)] not_False_eq_True)
  also have "\<dots> = Some [a, b]"
    unfolding sextet_join [OF lt] by simp
  finally show ?case .
next
  case (3 a)
  then have lt: "a < 256" "(0::nat) < 256" "(0::nat) < 256" by simp_all
  note bd = sextet_bounds [OF lt]
  have "b64decode (b64encode [a]) = Some [a div 4 * 4 + ((a mod 4) * 16) div 16]"
    unfolding b64encode.simps
    by (rule b64decode_pad2)
       (simp_all only: char_sextet_inverse [OF bd(1)] char_sextet_inverse [OF bd(6)])
  also have "\<dots> = Some [a]"
    unfolding sextet_join [OF lt] by simp
  finally show ?case .
next
  case 4
  then show ?case by simp
qed

lemma join3:
  fixes c :: nat
  shows "c div 4096 * 4096 + (c div 64 mod 64) * 64 + c mod 64 = c"
proof -
  have "c mod 4096 = 64 * (c div 64 mod 64) + c mod 64"
    using mod_mult2_eq [of c 64 64] by simp
  moreover have "c div 4096 * 4096 + c mod 4096 = c" by simp
  ultimately show ?thesis by simp
qed

lemma join4:
  fixes c :: nat
  shows "c div 262144 * 262144 + (c div 4096 mod 64) * 4096 + (c div 64 mod 64) * 64 + c mod 64 = c"
proof -
  have "c mod 262144 = 4096 * (c div 4096 mod 64) + c mod 4096"
    using mod_mult2_eq [of c 4096 64] by simp
  moreover have "c mod 4096 = 64 * (c div 64 mod 64) + c mod 64"
    using mod_mult2_eq [of c 64 64] by simp
  moreover have "c div 262144 * 262144 + c mod 262144 = c" by simp
  ultimately show ?thesis by simp
qed

lemma utf8_step_1: "c < 0x80 \<Longrightarrow> utf8_step c rest = Some (c, 0)"
  by (simp add: utf8_step_def)

lemma utf8_step_2:
  "x < 32 \<Longrightarrow> y < 64 \<Longrightarrow> 0x80 \<le> x * 64 + y \<Longrightarrow>
   utf8_step (0xC0 + x) ((0x80 + y) # rest) = Some (x * 64 + y, 1)"
  by (simp add: utf8_step_def continuation_def Let_def)

lemma utf8_step_3:
  "x < 16 \<Longrightarrow> y < 64 \<Longrightarrow> z < 64 \<Longrightarrow> c = x * 4096 + y * 64 + z \<Longrightarrow> 0x800 \<le> c \<Longrightarrow>
   scalar c \<Longrightarrow>
   utf8_step (0xE0 + x) ((0x80 + y) # (0x80 + z) # rest) = Some (c, 2)"
  by (simp add: utf8_step_def continuation_def Let_def)

lemma utf8_step_4:
  "x < 8 \<Longrightarrow> y < 64 \<Longrightarrow> z < 64 \<Longrightarrow> w < 64 \<Longrightarrow> c = x * 262144 + y * 4096 + z * 64 + w \<Longrightarrow>
   0x10000 \<le> c \<Longrightarrow> c < 0x110000 \<Longrightarrow>
   utf8_step (0xF0 + x) ((0x80 + y) # (0x80 + z) # (0x80 + w) # rest) = Some (c, 3)"
  by (simp add: utf8_step_def continuation_def Let_def)

lemma utf8_decode_cp:
  assumes "scalar c"
  shows "utf8_decode (utf8_encode_cp c @ rest) = map_option ((#) c) (utf8_decode rest)"
proof -
  consider "c < 0x80" | "0x80 \<le> c" "c < 0x800" | "0x800 \<le> c" "c < 0x10000"
    | "0x10000 \<le> c" "c < 0x110000"
    using assms unfolding scalar_def by linarith
  then show ?thesis
  proof cases
    case 1
    then show ?thesis
      by (simp add: utf8_encode_cp_def utf8_step_1)
  next
    case 2
    have enc: "utf8_encode_cp c = [0xC0 + c div 64, 0x80 + c mod 64]"
      using 2 by (simp add: utf8_encode_cp_def)
    have b: "c div 64 < 32" using 2 by (simp add: div_less_iff_less_mult)
    have j: "c div 64 * 64 + c mod 64 = c" by simp
    have "utf8_step (0xC0 + c div 64) ((0x80 + c mod 64) # rest) =
        Some (c div 64 * 64 + c mod 64, 1)"
      by (rule utf8_step_2) (use b 2 j in simp_all)
    then show ?thesis
      unfolding enc j by simp
  next
    case 3
    have enc: "utf8_encode_cp c = [0xE0 + c div 4096, 0x80 + (c div 64) mod 64, 0x80 + c mod 64]"
      using 3 by (simp add: utf8_encode_cp_def)
    have b: "c div 4096 < 16" using 3 by (simp add: div_less_iff_less_mult)
    have "utf8_step (0xE0 + c div 4096) ((0x80 + (c div 64) mod 64) # (0x80 + c mod 64) # rest) =
        Some (c, 2)"
      by (rule utf8_step_3) (use b 3 assms join3 [of c] in simp_all)
    then show ?thesis
      unfolding enc by simp
  next
    case 4
    have enc: "utf8_encode_cp c =
        [0xF0 + c div 262144, 0x80 + (c div 4096) mod 64, 0x80 + (c div 64) mod 64, 0x80 + c mod 64]"
      using 4 by (simp add: utf8_encode_cp_def)
    have b: "c div 262144 < 8" using 4 by (simp add: div_less_iff_less_mult)
    have "utf8_step (0xF0 + c div 262144)
          ((0x80 + (c div 4096) mod 64) # (0x80 + (c div 64) mod 64) # (0x80 + c mod 64) # rest) =
        Some (c, 3)"
      by (rule utf8_step_4) (use b 4 join4 [of c] in simp_all)
    then show ?thesis
      unfolding enc by simp
  qed
qed

lemma utf8_encode_cp_bytes:
  assumes "scalar c" and "b \<in> set (utf8_encode_cp c)"
  shows "b < 256"
proof -
  have m: "c mod 64 < 64" "c div 64 mod 64 < 64" "c div 4096 mod 64 < 64" by simp_all
  have "c < 0x110000" using assms(1) by (auto simp: scalar_def)
  then have d: "c div 262144 < 8" by (simp add: div_less_iff_less_mult)
  have d2: "c < 0x800 \<Longrightarrow> c div 64 < 32" by (simp add: div_less_iff_less_mult)
  have d3: "c < 0x10000 \<Longrightarrow> c div 4096 < 16" by (simp add: div_less_iff_less_mult)
  from assms(2) m d d2 d3 show ?thesis
    by (auto simp: utf8_encode_cp_def split: if_splits)
qed

lemma utf8_decode_utf8_encode:
  "list_all scalar cs \<Longrightarrow> utf8_decode (utf8_encode cs) = Some cs"
proof (induction cs)
  case Nil
  then show ?case by (simp add: utf8_encode_def)
next
  case (Cons c cs)
  then have "scalar c" and ih: "utf8_decode (utf8_encode cs) = Some cs"
    by simp_all
  have "utf8_encode (c # cs) = utf8_encode_cp c @ utf8_encode cs"
    by (simp add: utf8_encode_def)
  with utf8_decode_cp [OF \<open>scalar c\<close>, of "utf8_encode cs"] ih show ?case
    by simp
qed

lemma utf8_encode_bytes: "list_all scalar cs \<Longrightarrow> \<forall>b \<in> set (utf8_encode cs). b < 256"
  by (induction cs) (auto simp: utf8_encode_def utf8_encode_cp_bytes)

lemma b64toUtf8_utf8toB64: "list_all scalar y \<Longrightarrow> b64toUtf8 (utf8toB64 y) = Some y"
  by (simp add: b64toUtf8_def utf8toB64_def b64decode_b64encode utf8_encode_bytes
      utf8_decode_utf8_encode)

lemma slash_w_bytes: "b64decode ''/w=='' = Some [255]"
  by (simp add: char_sextet_def alphabet_def)

lemma slash_w_not_utf8: "b64toUtf8 ''/w=='' = None"
  unfolding b64toUtf8_def slash_w_bytes by (simp add: utf8_step_def)

text \<open>
  C7.  \<open>b64toUtf8(utf8toB64(y)) = y\<close> for every well-formed string \<open>y\<close>, and
  \<open>utf8toB64(b64toUtf8(x)) = x\<close> for every \<open>x\<close> that is the base64 text of such a string;
  \<open>b64toUtf8("IkVjaG8i")\<close> is \<open>"Echo"\<close> in double quotes and \<open>utf8toB64\<close> of that is
  \<open>"IkVjaG8i"\<close>.
\<close>

theorem base64_round_trip:
  assumes "list_all scalar y"
  shows "b64toUtf8 (utf8toB64 y) = Some y \<and>
         map_option utf8toB64 (b64toUtf8 (utf8toB64 y)) = Some (utf8toB64 y) \<and>
         b64toUtf8 ''IkVjaG8i'' = Some quoted_Echo \<and>
         utf8toB64 quoted_Echo = ''IkVjaG8i''"
proof -
  have 1: "b64toUtf8 (utf8toB64 y) = Some y"
    using assms by (rule b64toUtf8_utf8toB64)
  have 2: "b64toUtf8 ''IkVjaG8i'' = Some quoted_Echo"
    by (simp add: b64toUtf8_def char_sextet_def alphabet_def utf8_step_def quoted_Echo_def)
  have 3: "utf8toB64 quoted_Echo = ''IkVjaG8i''"
    by (simp add: utf8toB64_def utf8_encode_def utf8_encode_cp_def sextet_char_def alphabet_def
        quoted_Echo_def)
  from 1 2 3 show ?thesis by simp
qed

theorem base64_round_trip_witness:
  "list_all scalar [0x20AC, 0x1F921] \<and>
   b64toUtf8 (utf8toB64 [0x20AC, 0x1F921]) = Some [0x20AC, 0x1F921]"
  using base64_round_trip [of "[0x20AC, 0x1F921]"]
  by (simp add: scalar_def)

text \<open>
  C7, for every valid base64 string.  \<open>"/w=="\<close> is valid base64, for the one byte 255,
  which is not UTF-8; decoding and encoding again does not give \<open>"/w=="\<close> back, and no
  well-formed string at all has \<open>"/w=="\<close> as its \<open>utf8toB64\<close>.
\<close>

theorem base64_round_trip_counterexample:
  "b64decode ''/w=='' = Some [255] \<and>
   map_option utf8toB64 (b64toUtf8 ''/w=='') \<noteq> Some ''/w=='' \<and>
   \<not> (\<exists>y. list_all scalar y \<and> utf8toB64 y = ''/w=='')"
proof -
  have "\<not> (\<exists>y. list_all scalar y \<and> utf8toB64 y = ''/w=='')"
  proof
    assume "\<exists>y. list_all scalar y \<and> utf8toB64 y = ''/w==''"
    then obtain y where y: "list_all scalar y" "utf8toB64 y = ''/w==''" by blast
    from b64toUtf8_utf8toB64 [OF y(1)] y(2) slash_w_not_utf8 show False by simp
  qed
  then show ?thesis
    unfolding slash_w_bytes slash_w_not_utf8 by simp
qed

end
